theory Spec2Isabelle
  imports Main "HOL-Library.Sublist"
begin

text \<open>
  A model of the Brinqa MCP server of \<open>src/index.ts\<close>: the query builders, the client
  with its session and its GraphQL executor, and the handler of tool calls.
\<close>

section \<open>JavaScript values\<close>

text \<open>
  Optional parameters are \<open>'a option\<close>, with \<open>None\<close> for \<open>undefined\<close>.
  A \<open>number\<close> is modelled as an \<open>int\<close>: tool arguments arrive as JSON, so they are
  finite, and the counts and scores concerned are whole numbers.
\<close>

text \<open>Truthiness (\<open>ToBoolean\<close>) of an optional string, number and boolean.\<close>

definition truthy_str :: "string option \<Rightarrow> bool" where
  "truthy_str v = (case v of None \<Rightarrow> False | Some s \<Rightarrow> s \<noteq> [])"

definition truthy_num :: "int option \<Rightarrow> bool" where
  "truthy_num v = (case v of None \<Rightarrow> False | Some n \<Rightarrow> n \<noteq> 0)"

definition truthy_bool :: "bool option \<Rightarrow> bool" where
  "truthy_bool v = (case v of None \<Rightarrow> False | Some b \<Rightarrow> b)"

text \<open>The operator \<open>a || b\<close> on an optional number and on an optional string.\<close>

definition or_num :: "int option \<Rightarrow> int \<Rightarrow> int" where
  "or_num v d = (case v of None \<Rightarrow> d | Some n \<Rightarrow> if n \<noteq> 0 then n else d)"

definition or_str :: "string option \<Rightarrow> string \<Rightarrow> string" where
  "or_str v d = (case v of None \<Rightarrow> d | Some s \<Rightarrow> if s \<noteq> [] then s else d)"

text \<open>
  Decimal rendering of a whole number, as a template literal interpolates it. For a
  whole number of magnitude up to \<open>2 ^ 53\<close> this is the text JavaScript prints; a JSON
  number beyond that range, or one with a fraction, is outside this model.
\<close>

fun show_nat :: "nat \<Rightarrow> string" where
  "show_nat n =
     (if n < 10 then [''0123456789'' ! n]
      else show_nat (n div 10) @ [''0123456789'' ! (n mod 10)])"

declare show_nat.simps [simp del]

definition show_num :: "int \<Rightarrow> string" where
  "show_num i = (if i < 0 then ''-'' @ show_nat (nat (- i)) else show_nat (nat i))"

text \<open>Interpolation \<open>${v}\<close> of an optional value: \<open>undefined\<close> prints as its name.\<close>

definition interp_str :: "string option \<Rightarrow> string" where
  "interp_str v = (case v of None \<Rightarrow> ''undefined'' | Some s \<Rightarrow> s)"

definition interp_num :: "int option \<Rightarrow> string" where
  "interp_num v = (case v of None \<Rightarrow> ''undefined'' | Some n \<Rightarrow> show_num n)"

text \<open>\<open>Array.prototype.join\<close>.\<close>

fun join :: "string \<Rightarrow> string list \<Rightarrow> string" where
  "join sep [] = []"
| "join sep [x] = x"
| "join sep (x # y # zs) = x @ sep @ join sep (y # zs)"

section \<open>Query builders\<close>

text \<open>
  Each builder takes a parameter object whose fields are all optional. A field name that
  several parameter objects share carries the resource as a prefix.
\<close>

record assets_params =
  asset_type :: "string option"
  assets_status :: "string option"
  assets_limit :: "int option"
  assets_filter :: "string option"
  assets_fields :: "string list option"

record vulnerabilities_params =
  severity :: "string option"
  vulnerabilities_status :: "string option"
  cve_id :: "string option"
  vulnerabilities_limit :: "int option"
  vulnerabilities_filter :: "string option"
  include_affected_assets :: "bool option"

record findings_params =
  finding_type :: "string option"
  findings_status :: "string option"
  risk_score_min :: "int option"
  risk_score_max :: "int option"
  findings_limit :: "int option"
  age_days :: "int option"

record tickets_params =
  tickets_status :: "string option"
  priority :: "string option"
  assignee :: "string option"
  sla_status :: "string option"
  tickets_limit :: "int option"

record risk_scores_params =
  scope :: "string option"
  entity_id :: "string option"
  include_factors :: "bool option"
  include_trends :: "bool option"

record connectors_params =
  connector_type :: "string option"
  connectors_status :: "string option"
  include_sync_history :: "bool option"

record clusters_params =
  cluster_type :: "string option"
  clusters_limit :: "int option"

record data_models_params =
  model_name :: "string option"
  include_attributes :: "bool option"
  include_relationships :: "bool option"

text \<open>
  The expression \<open>filters.length > 0 ? `(${filters.join(", ")})` : ""\<close>, which every
  builder with filters evaluates on its \<open>filters\<close> array.
\<close>

definition filterStr :: "string list \<Rightarrow> string" where
  \<open>filterStr filters = (if length filters > 0 then ''('' @ join '', '' filters @ '')'' else '''')\<close>

subsection \<open>Assets\<close>

text \<open>The \<open>filters\<close> array of \<open>buildAssetsQuery\<close> after its conditional pushes.\<close>

definition assetsFilters :: "assets_params \<Rightarrow> string list" where
  \<open>assetsFilters params =
     (if truthy_str (asset_type params)
      then [''assetType: "'' @ interp_str (asset_type params) @ ''"''] else []) @
     (if truthy_str (assets_status params)
      then [''status: '' @ interp_str (assets_status params)] else []) @
     (if truthy_str (assets_filter params)
      then [''filter: "'' @ interp_str (assets_filter params) @ ''"''] else [])\<close>

definition defaultAssetFields :: string where
  \<open>defaultAssetFields =
     ''id
        name
        assetType
        status
        criticality
        riskScore
        ipAddress
        hostname
        operatingSystem
        lastSeen
        discoveredAt
        owner
        businessUnit
        environment
        tags''\<close>

text \<open>The template literal that \<open>buildAssetsQuery\<close> returns, with its three holes.\<close>

definition assetsDocument :: "string \<Rightarrow> int \<Rightarrow> string \<Rightarrow> string" where
  \<open>assetsDocument filterStr' limit fields' =
     ''
    query GetAssets {
      assets'' @
     filterStr' @
     '' {
        totalCount
        pageInfo {
          hasNextPage
          endCursor
        }
        nodes(first: '' @
     show_num limit @
     '') {
          '' @
     fields' @
     ''
        }
      }
    }
  ''\<close>

text \<open>The constant \<open>fields\<close> of \<open>buildAssetsQuery\<close>.\<close>

definition assetsFieldSelection :: "assets_params \<Rightarrow> string" where
  \<open>assetsFieldSelection params =
     or_str (map_option (join ''
        '') (assets_fields params)) defaultAssetFields\<close>

definition buildAssetsQuery :: "assets_params \<Rightarrow> string" where
  \<open>buildAssetsQuery params =
     (let limit = min (or_num (assets_limit params) 100) 1000;
          fields' = assetsFieldSelection params
      in assetsDocument (filterStr (assetsFilters params)) limit fields')\<close>

subsection \<open>Vulnerabilities\<close>

definition vulnerabilitiesFilters :: "vulnerabilities_params \<Rightarrow> string list" where
  \<open>vulnerabilitiesFilters params =
     (if truthy_str (severity params)
      then [''severity: '' @ interp_str (severity params)] else []) @
     (if truthy_str (vulnerabilities_status params)
      then [''status: '' @ interp_str (vulnerabilities_status params)] else []) @
     (if truthy_str (cve_id params)
      then [''cveId: "'' @ interp_str (cve_id params) @ ''"''] else []) @
     (if truthy_str (vulnerabilities_filter params)
      then [''filter: "'' @ interp_str (vulnerabilities_filter params) @ ''"''] else [])\<close>

definition affectedAssetsBlock :: string where
  \<open>affectedAssetsBlock =
     ''affectedAssets {
            id
            name
            assetType
          }''\<close>

definition vulnerabilitiesDocument :: "string \<Rightarrow> int \<Rightarrow> string \<Rightarrow> string" where
  \<open>vulnerabilitiesDocument filterStr' limit affectedAssetsFields =
     ''
    query GetVulnerabilities {
      vulnerabilities'' @
     filterStr' @
     '' {
        totalCount
        pageInfo {
          hasNextPage
          endCursor
        }
        nodes(first: '' @
     show_num limit @
     '') {
          id
          cveId
          title
          description
          severity
          cvssScore
          cvssVector
          status
          riskScore
          exploitAvailable
          exploitMaturity
          patchAvailable
          publishedDate
          lastModifiedDate
          firstDiscoveredDate
          affectedAssetCount
          '' @
     affectedAssetsFields @
     ''
          references
          remediation
        }
      }
    }
  ''\<close>

definition buildVulnerabilitiesQuery :: "vulnerabilities_params \<Rightarrow> string" where
  \<open>buildVulnerabilitiesQuery params =
     (let limit = min (or_num (vulnerabilities_limit params) 100) 1000;
          affectedAssetsFields =
            (if truthy_bool (include_affected_assets params) then affectedAssetsBlock else '''')
      in vulnerabilitiesDocument (filterStr (vulnerabilitiesFilters params)) limit
           affectedAssetsFields)\<close>

subsection \<open>Findings\<close>

text \<open>
  The two risk-score bounds are tested with \<open>!== undefined\<close>; the other fields are
  tested for truthiness.
\<close>

definition findingsFilters :: "findings_params \<Rightarrow> string list" where
  \<open>findingsFilters params =
     (if truthy_str (finding_type params)
      then [''findingType: "'' @ interp_str (finding_type params) @ ''"''] else []) @
     (if truthy_str (findings_status params)
      then [''status: '' @ interp_str (findings_status params)] else []) @
     (if risk_score_min params \<noteq> None
      then [''riskScoreMin: '' @ interp_num (risk_score_min params)] else []) @
     (if risk_score_max params \<noteq> None
      then [''riskScoreMax: '' @ interp_num (risk_score_max params)] else []) @
     (if truthy_num (age_days params)
      then [''discoveredAfter: "-'' @ interp_num (age_days params) @ ''d"''] else [])\<close>

definition findingsDocument :: "string \<Rightarrow> int \<Rightarrow> string" where
  \<open>findingsDocument filterStr' limit =
     ''
    query GetFindings {
      findings'' @
     filterStr' @
     '' {
        totalCount
        pageInfo {
          hasNextPage
          endCursor
        }
        nodes(first: '' @
     show_num limit @
     '') {
          id
          findingType
          title
          description
          status
          severity
          riskScore
          baseRiskScore
          overallRiskScore
          discoveredAt
          lastSeenAt
          resolvedAt
          asset {
            id
            name
            assetType
          }
          vulnerability {
            id
            cveId
            title
          }
          assignee
          dueDate
          slaStatus
        }
      }
    }
  ''\<close>

definition buildFindingsQuery :: "findings_params \<Rightarrow> string" where
  \<open>buildFindingsQuery params =
     (let limit = min (or_num (findings_limit params) 100) 1000
      in findingsDocument (filterStr (findingsFilters params)) limit)\<close>

subsection \<open>Tickets\<close>

definition ticketsFilters :: "tickets_params \<Rightarrow> string list" where
  \<open>ticketsFilters params =
     (if truthy_str (tickets_status params)
      then [''status: '' @ interp_str (tickets_status params)] else []) @
     (if truthy_str (priority params)
      then [''priority: '' @ interp_str (priority params)] else []) @
     (if truthy_str (assignee params)
      then [''assignee: "'' @ interp_str (assignee params) @ ''"''] else []) @
     (if truthy_str (sla_status params)
      then [''slaStatus: '' @ interp_str (sla_status params)] else [])\<close>

definition ticketsDocument :: "string \<Rightarrow> int \<Rightarrow> string" where
  \<open>ticketsDocument filterStr' limit =
     ''
    query GetTickets {
      tickets'' @
     filterStr' @
     '' {
        totalCount
        pageInfo {
          hasNextPage
          endCursor
        }
        nodes(first: '' @
     show_num limit @
     '') {
          id
          ticketId
          title
          description
          status
          priority
          severity
          assignee
          reporter
          createdAt
          updatedAt
          dueDate
          slaStatus
          slaDueDate
          findingsCount
          affectedAssetsCount
          externalTicketId
          externalTicketUrl
        }
      }
    }
  ''\<close>

definition buildTicketsQuery :: "tickets_params \<Rightarrow> string" where
  \<open>buildTicketsQuery params =
     (let limit = min (or_num (tickets_limit params) 100) 1000
      in ticketsDocument (filterStr (ticketsFilters params)) limit)\<close>

subsection \<open>Risk scores\<close>

definition riskFactorsBlock :: string where
  \<open>riskFactorsBlock =
     ''riskFactors {
          name
          weight
          score
          description
        }''\<close>

definition riskTrendsBlock :: string where
  \<open>riskTrendsBlock =
     ''riskTrends {
          date
          score
          changePercent
        }''\<close>

text \<open>The single-entity template and the organization-wide template.\<close>

definition assetRiskScoreDocument :: "string \<Rightarrow> string \<Rightarrow> string \<Rightarrow> string" where
  \<open>assetRiskScoreDocument entity factorsFields trendsFields =
     ''
      query GetAssetRiskScore {
        asset(id: "'' @
     entity @
     ''") {
          id
          name
          riskScore
          baseRiskScore
          overallRiskScore
          '' @
     factorsFields @
     ''
          '' @
     trendsFields @
     ''
        }
      }
    ''\<close>

definition riskSummaryDocument :: "string \<Rightarrow> string \<Rightarrow> string" where
  \<open>riskSummaryDocument factorsFields trendsFields =
     ''
    query GetRiskScores {
      riskSummary {
        overallRiskScore
        criticalAssetCount
        highRiskAssetCount
        mediumRiskAssetCount
        lowRiskAssetCount
        totalAssetCount
        openFindingsCount
        criticalFindingsCount
        averageRemediationTime
        '' @
     factorsFields @
     ''
        '' @
     trendsFields @
     ''
      }
    }
  ''\<close>

definition buildRiskScoresQuery :: "risk_scores_params \<Rightarrow> string" where
  \<open>buildRiskScoresQuery params =
     (let factorsFields = (if truthy_bool (include_factors params) then riskFactorsBlock else '''');
          trendsFields = (if truthy_bool (include_trends params) then riskTrendsBlock else '''')
      in if scope params = Some ''ASSET'' \<and> truthy_str (entity_id params)
         then assetRiskScoreDocument (interp_str (entity_id params)) factorsFields trendsFields
         else riskSummaryDocument factorsFields trendsFields)\<close>

subsection \<open>Connectors\<close>

definition syncHistoryBlock :: string where
  \<open>syncHistoryBlock =
     ''syncHistory {
          syncId
          startTime
          endTime
          status
          recordsProcessed
          errorsCount
        }''\<close>

definition connectorsFilters :: "connectors_params \<Rightarrow> string list" where
  \<open>connectorsFilters params =
     (if truthy_str (connector_type params)
      then [''connectorType: "'' @ interp_str (connector_type params) @ ''"''] else []) @
     (if truthy_str (connectors_status params)
      then [''status: '' @ interp_str (connectors_status params)] else [])\<close>

definition connectorsDocument :: "string \<Rightarrow> string \<Rightarrow> string" where
  \<open>connectorsDocument filterStr' syncHistoryFields =
     ''
    query GetConnectors {
      connectors'' @
     filterStr' @
     '' {
        id
        name
        connectorType
        status
        lastSyncTime
        lastSyncStatus
        recordsCount
        configuration {
          enabled
          syncSchedule
        }
        '' @
     syncHistoryFields @
     ''
      }
    }
  ''\<close>

definition buildConnectorsQuery :: "connectors_params \<Rightarrow> string" where
  \<open>buildConnectorsQuery params =
     (let syncHistoryFields =
            (if truthy_bool (include_sync_history params) then syncHistoryBlock else '''')
      in connectorsDocument (filterStr (connectorsFilters params)) syncHistoryFields)\<close>

subsection \<open>Clusters\<close>

definition clustersFilters :: "clusters_params \<Rightarrow> string list" where
  \<open>clustersFilters params =
     (if truthy_str (cluster_type params)
      then [''clusterType: "'' @ interp_str (cluster_type params) @ ''"''] else [])\<close>

definition clustersDocument :: "string \<Rightarrow> int \<Rightarrow> string" where
  \<open>clustersDocument filterStr' limit =
     ''
    query GetClusters {
      clusters'' @
     filterStr' @
     '' {
        nodes(first: '' @
     show_num limit @
     '') {
          id
          name
          clusterType
          description
          entityCount
          riskScore
          criteria {
            attribute
            operator
            value
          }
          createdAt
          updatedAt
        }
      }
    }
  ''\<close>

definition buildClustersQuery :: "clusters_params \<Rightarrow> string" where
  \<open>buildClustersQuery params =
     (let limit = min (or_num (clusters_limit params) 50) 500
      in clustersDocument (filterStr (clustersFilters params)) limit)\<close>

subsection \<open>Data models\<close>

definition attributesBlock :: string where
  \<open>attributesBlock =
     ''attributes {
          name
          type
          description
          required
          indexed
        }''\<close>

definition relationshipsBlock :: string where
  \<open>relationshipsBlock =
     ''relationships {
          name
          targetModel
          cardinality
          description
        }''\<close>

definition dataModelDocument :: "string \<Rightarrow> string \<Rightarrow> string \<Rightarrow> string" where
  \<open>dataModelDocument model attributesFields relationshipsFields =
     ''
      query GetDataModel {
        dataModel(name: "'' @
     model @
     ''") {
          name
          description
          category
          '' @
     attributesFields @
     ''
          '' @
     relationshipsFields @
     ''
        }
      }
    ''\<close>

definition dataModelsDocument :: "string \<Rightarrow> string \<Rightarrow> string" where
  \<open>dataModelsDocument attributesFields relationshipsFields =
     ''
    query GetDataModels {
      dataModels {
        name
        description
        category
        '' @
     attributesFields @
     ''
        '' @
     relationshipsFields @
     ''
      }
    }
  ''\<close>

definition buildDataModelsQuery :: "data_models_params \<Rightarrow> string" where
  \<open>buildDataModelsQuery params =
     (let attributesFields =
            (if truthy_bool (include_attributes params) then attributesBlock else '''');
          relationshipsFields =
            (if truthy_bool (include_relationships params) then relationshipsBlock else '''')
      in if truthy_str (model_name params)
         then dataModelDocument (interp_str (model_name params)) attributesFields
                relationshipsFields
         else dataModelsDocument attributesFields relationshipsFields)\<close>

section \<open>Client\<close>

text \<open>
  The four environment variables, each defaulting to the empty string.
\<close>

record config =
  BRINQA_API_URL :: string
  BRINQA_USERNAME :: string
  BRINQA_PASSWORD :: string
  BRINQA_API_KEY :: string

text \<open>Every failure is a JavaScript \<open>Error\<close> carrying a message.\<close>

datatype error = Error string

fun message :: "error \<Rightarrow> string" where
  "message (Error m) = m"

text \<open>
  How an axios call ends: it resolves with the response body, it rejects with an axios
  error (\<open>error.response?.status\<close>, \<open>error.response?.data?.message\<close> and
  \<open>error.message\<close>), or it rejects with an error that is not an axios error.
\<close>

datatype 'a outcome =
  Resolved 'a
| AxiosError "nat option" "string option" string
| Thrown string

record auth_response =
  access_token :: string
  token_type :: string
  expires_in :: int

text \<open>
  A GraphQL response body. Of each entry of \<open>errors\<close> only the message is read; the
  payload \<open>data\<close> stands for a JSON object, so it is falsy only when it is absent.
\<close>

record graphql_response =
  data :: "string option"
  errors :: "string list option"

type_synonym headers = "(string \<times> string) list"

record ingest_body =
  namespace :: string
  dataType :: string
  records :: "string list"

text \<open>The requests the client can put on the wire: URL, body and headers.\<close>

datatype request =
  LoginRequest string string
| GraphQLRequest headers string "string option"
| ConnectRequest string string headers ingest_body

text \<open>
  The remote service: what the request issued after \<open>k\<close> earlier ones is answered with,
  for each endpoint, and how many milliseconds that request takes.
\<close>

record remote =
  login :: "nat \<Rightarrow> auth_response outcome"
  graphql :: "nat \<Rightarrow> graphql_response outcome"
  connect :: "nat \<Rightarrow> string outcome"
  latency :: "nat \<Rightarrow> nat"

text \<open>
  The two private fields of \<open>BrinqaClient\<close> that change, together with the clock that
  \<open>Date.now()\<close> reads (in milliseconds) and the requests issued so far.
\<close>

record state =
  accessToken :: "string option"
  tokenExpiry :: int
  now :: int
  requests :: "request list"

definition send :: "remote \<Rightarrow> request \<Rightarrow> state \<Rightarrow> state" where
  "send rem req s =
     s\<lparr>requests := requests s @ [req],
       now := now s + int (latency rem (length (requests s)))\<rparr>"

definition authenticate :: "config \<Rightarrow> remote \<Rightarrow> state \<Rightarrow> (error + unit) \<times> state" where
  "authenticate cfg rem s =
     (if truthy_str (accessToken s) \<and> now s < tokenExpiry s then (Inr (), s)
      else if BRINQA_API_KEY cfg \<noteq> []
      then (Inr (), s\<lparr>accessToken := Some (BRINQA_API_KEY cfg),
                       tokenExpiry := now s + 24 * 60 * 60 * 1000\<rparr>)
      else if BRINQA_USERNAME cfg = [] \<or> BRINQA_PASSWORD cfg = []
      then (Inl (Error ''Authentication credentials not configured. Set BRINQA_USERNAME and BRINQA_PASSWORD or BRINQA_API_KEY.''), s)
      else
        (let s1 = send rem (LoginRequest (BRINQA_USERNAME cfg) (BRINQA_PASSWORD cfg)) s
         in case login rem (length (requests s)) of
              Resolved response \<Rightarrow>
                (Inr (), s1\<lparr>accessToken := Some (access_token response),
                            tokenExpiry := now s1 + (expires_in response - 300) * 1000\<rparr>)
            | AxiosError status remote_message error_message \<Rightarrow>
                (Inl (Error (''Authentication failed: '' @ or_str remote_message error_message)), s1)
            | Thrown error_message \<Rightarrow> (Inl (Error error_message), s1)))"

definition getAuthHeaders :: "config \<Rightarrow> remote \<Rightarrow> state \<Rightarrow> (error + headers) \<times> state" where
  "getAuthHeaders cfg rem s =
     (case authenticate cfg rem s of
        (Inl e, s1) \<Rightarrow> (Inl e, s1)
      | (Inr _, s1) \<Rightarrow>
          (Inr [(''Authorization'',
                 ''Bearer '' @ (case accessToken s1 of None \<Rightarrow> ''null'' | Some t \<Rightarrow> t)),
                (''Content-Type'', ''application/json''),
                (''Accept'', ''application/json'')], s1))"

text \<open>
  \<open>executeGraphQL\<close> calls itself from its \<open>catch\<close> block, with nothing that bounds the
  number of calls: the result \<open>None\<close> stands for a call that never returns.
\<close>

partial_function (option) executeGraphQL ::
  "config \<Rightarrow> remote \<Rightarrow> string \<Rightarrow> string option \<Rightarrow> state \<Rightarrow> ((error + string) \<times> state) option"
where
  "executeGraphQL cfg rem query variables s =
     (case getAuthHeaders cfg rem s of
        (Inl e, s1) \<Rightarrow> Some (Inl e, s1)
      | (Inr hdrs, s1) \<Rightarrow>
          (let s2 = send rem (GraphQLRequest hdrs query variables) s1
           in case graphql rem (length (requests s1)) of
                Resolved response \<Rightarrow>
                  (case errors response of
                     Some (e # es) \<Rightarrow>
                       Some (Inl (Error (''GraphQL errors: '' @ join ''; '' (e # es))), s2)
                   | _ \<Rightarrow>
                       (case data response of
                          None \<Rightarrow> Some (Inl (Error ''No data returned from GraphQL query''), s2)
                        | Some d \<Rightarrow> Some (Inr d, s2)))
              | AxiosError status remote_message error_message \<Rightarrow>
                  if status = Some 401
                  then executeGraphQL cfg rem query variables
                         (s2\<lparr>accessToken := None, tokenExpiry := 0\<rparr>)
                  else Some (Inl (Error (''GraphQL request failed: '' @
                                          or_str remote_message error_message)), s2)
              | Thrown error_message \<Rightarrow> Some (Inl (Error error_message), s2)))"

declare executeGraphQL.simps [code]

definition connectApiRequest ::
  "config \<Rightarrow> remote \<Rightarrow> string \<Rightarrow> string \<Rightarrow> ingest_body \<Rightarrow> state \<Rightarrow> (error + string) \<times> state"
where
  "connectApiRequest cfg rem method endpoint body s =
     (case getAuthHeaders cfg rem s of
        (Inl e, s1) \<Rightarrow> (Inl e, s1)
      | (Inr hdrs, s1) \<Rightarrow>
          (let hdrs' = (if BRINQA_API_KEY cfg \<noteq> []
                        then hdrs @ [(''X-API-KEY'', BRINQA_API_KEY cfg)] else hdrs);
               s2 = send rem (ConnectRequest method (''/connect'' @ endpoint) hdrs' body) s1
           in case connect rem (length (requests s1)) of
                Resolved response \<Rightarrow> (Inr response, s2)
              | AxiosError status remote_message error_message \<Rightarrow>
                  (Inl (Error (''Brinqa Connect API request failed: '' @
                               or_str remote_message error_message)), s2)
              | Thrown error_message \<Rightarrow> (Inl (Error error_message), s2)))"

section \<open>Tool calls\<close>

text \<open>
  A tool call is the tool's name with its arguments, cast to the parameter type of the
  tool without any check, as the handler does.
\<close>

datatype tool_call =
  query_assets assets_params
| query_vulnerabilities vulnerabilities_params
| query_findings findings_params
| get_risk_scores risk_scores_params
| query_tickets tickets_params
| get_connectors connectors_params
| execute_graphql string "string option"
| get_clusters clusters_params
| connect_ingest_data string string "string list"
| get_data_models data_models_params
| unknown_tool string

record tool_result =
  content_text :: string
  isError :: bool

text \<open>
  The end of the handler: the result is serialised, an error becomes its message behind
  \<open>Error: \<close>. Payloads are already JSON text here, so serialising is the identity.
\<close>

definition respond :: "(error + string) \<times> state \<Rightarrow> tool_result \<times> state" where
  "respond r =
     (case r of
        (Inr result, s) \<Rightarrow> (\<lparr>content_text = result, isError = False\<rparr>, s)
      | (Inl e, s) \<Rightarrow> (\<lparr>content_text = ''Error: '' @ message e, isError = True\<rparr>, s))"

definition callTool :: "config \<Rightarrow> remote \<Rightarrow> tool_call \<Rightarrow> state \<Rightarrow> (tool_result \<times> state) option" where
  "callTool cfg rem call s =
     map_option respond
       (case call of
          query_assets params \<Rightarrow> executeGraphQL cfg rem (buildAssetsQuery params) None s
        | query_vulnerabilities params \<Rightarrow>
            executeGraphQL cfg rem (buildVulnerabilitiesQuery params) None s
        | query_findings params \<Rightarrow> executeGraphQL cfg rem (buildFindingsQuery params) None s
        | get_risk_scores params \<Rightarrow> executeGraphQL cfg rem (buildRiskScoresQuery params) None s
        | query_tickets params \<Rightarrow> executeGraphQL cfg rem (buildTicketsQuery params) None s
        | get_connectors params \<Rightarrow> executeGraphQL cfg rem (buildConnectorsQuery params) None s
        | execute_graphql query variables \<Rightarrow> executeGraphQL cfg rem query variables s
        | get_clusters params \<Rightarrow> executeGraphQL cfg rem (buildClustersQuery params) None s
        | connect_ingest_data ns data_type recs \<Rightarrow>
            Some (connectApiRequest cfg rem ''POST'' ''/ingest''
                    \<lparr>namespace = ns, dataType = data_type, records = recs\<rparr> s)
        | get_data_models params \<Rightarrow> executeGraphQL cfg rem (buildDataModelsQuery params) None s
        | unknown_tool name \<Rightarrow> Some (Inl (Error (''Unknown tool: '' @ name)), s))"

section \<open>Reading a generated document\<close>

text \<open>
  A filter clause is recognised in a \<open>filters\<close> array by the argument name it starts
  with. Within one builder no argument name is the beginning of another.
\<close>

definition has_clause :: "string \<Rightarrow> string list \<Rightarrow> bool" where
  "has_clause name filters = list_ex (prefix name) filters"

text \<open>
  The two shapes of a risk-score document are told apart by how the document begins,
  up to and including the root field.
\<close>

definition is_asset_lookup :: "string \<Rightarrow> bool" where
  \<open>is_asset_lookup document =
     prefix ''
      query GetAssetRiskScore {
        asset(id: "'' document\<close>

definition is_risk_summary :: "string \<Rightarrow> bool" where
  \<open>is_risk_summary document =
     prefix ''
    query GetRiskScores {
      riskSummary {'' document\<close>

text \<open>A word that does not occur in an optional caller-supplied string.\<close>

definition absent :: "string \<Rightarrow> string option \<Rightarrow> bool" where
  "absent w v = (case v of None \<Rightarrow> True | Some s \<Rightarrow> \<not> sublist w s)"

text \<open>The same for every entry of an optional list of caller-supplied strings.\<close>

definition absent_all :: "string \<Rightarrow> string list option \<Rightarrow> bool" where
  "absent_all w v = (case v of None \<Rightarrow> True | Some xs \<Rightarrow> list_all (\<lambda>s. \<not> sublist w s) xs)"

text \<open>
  A piece of text \<open>x\<close> fits between the texts \<open>k\<close> and \<open>k'\<close> without forming the word
  \<open>w\<close>: it does not hold \<open>w\<close>, and at each of its two ends the character on one side
  of the seam is not a character of \<open>w\<close>.
\<close>

definition fits :: "string \<Rightarrow> string \<Rightarrow> string \<Rightarrow> string \<Rightarrow> bool" where
  "fits w k x k' =
     (\<not> sublist w x \<and>
      (x = [] \<or>
       ((last k \<notin> set w \<or> hd x \<notin> set w) \<and> (last x \<notin> set w \<or> hd k' \<notin> set w))))"

section \<open>Sample inputs\<close>

definition no_assets_params :: assets_params where
  "no_assets_params =
     \<lparr>asset_type = None, assets_status = None, assets_limit = None, assets_filter = None,
      assets_fields = None\<rparr>"

definition no_vulnerabilities_params :: vulnerabilities_params where
  "no_vulnerabilities_params =
     \<lparr>severity = None, vulnerabilities_status = None, cve_id = None,
      vulnerabilities_limit = None, vulnerabilities_filter = None,
      include_affected_assets = None\<rparr>"

definition no_findings_params :: findings_params where
  "no_findings_params =
     \<lparr>finding_type = None, findings_status = None, risk_score_min = None,
      risk_score_max = None, findings_limit = None, age_days = None\<rparr>"

definition no_tickets_params :: tickets_params where
  "no_tickets_params =
     \<lparr>tickets_status = None, priority = None, assignee = None, sla_status = None,
      tickets_limit = None\<rparr>"

definition no_risk_scores_params :: risk_scores_params where
  "no_risk_scores_params =
     \<lparr>scope = None, entity_id = None, include_factors = None, include_trends = None\<rparr>"

definition no_connectors_params :: connectors_params where
  "no_connectors_params =
     \<lparr>connector_type = None, connectors_status = None, include_sync_history = None\<rparr>"

definition no_clusters_params :: clusters_params where
  "no_clusters_params = \<lparr>cluster_type = None, clusters_limit = None\<rparr>"

definition no_data_models_params :: data_models_params where
  "no_data_models_params =
     \<lparr>model_name = None, include_attributes = None, include_relationships = None\<rparr>"

text \<open>A configuration with a static API key, and one with a username and a password.\<close>

definition key_config :: config where
  "key_config =
     \<lparr>BRINQA_API_URL = ''https://brinqa.example'', BRINQA_USERNAME = '''',
      BRINQA_PASSWORD = '''', BRINQA_API_KEY = ''key-1''\<rparr>"

definition password_config :: config where
  "password_config =
     \<lparr>BRINQA_API_URL = ''https://brinqa.example'', BRINQA_USERNAME = ''analyst'',
      BRINQA_PASSWORD = ''secret'', BRINQA_API_KEY = ''''\<rparr>"

text \<open>A client that has not authenticated yet, at clock reading 1000.\<close>

definition fresh :: state where
  "fresh = \<lparr>accessToken = None, tokenExpiry = 0, now = 1000, requests = []\<rparr>"

definition unauthorized :: "'a outcome" where
  "unauthorized = AxiosError (Some 401) None ''Request failed with status code 401''"

text \<open>
  A service that answers every GraphQL request with a payload, every login with a token
  that lives for a day, and takes 5 ms each time.
\<close>

definition serving :: remote where
  "serving =
     \<lparr>login = (\<lambda>k. Resolved \<lparr>access_token = ''tok'', token_type = ''Bearer'',
                                 expires_in = 86400\<rparr>),
      graphql = (\<lambda>k. Resolved \<lparr>data = Some ''{}'', errors = None\<rparr>),
      connect = (\<lambda>k. Resolved ''{}''),
      latency = (\<lambda>k. 5)\<rparr>"

text \<open>The same service, except that it rejects the first two requests with status 401.\<close>

definition rejecting_twice :: remote where
  "rejecting_twice = serving\<lparr>graphql := (\<lambda>k. if k < 2 then unauthorized else graphql serving k)\<rparr>"

text \<open>The same service, except that it rejects every GraphQL request with status 401.\<close>

definition rejecting_always :: remote where
  "rejecting_always = serving\<lparr>graphql := (\<lambda>k. unauthorized)\<rparr>"

text \<open>The headers that \<open>getAuthHeaders\<close> returns for the API key of \<open>key_config\<close>.\<close>

definition key_headers :: headers where
  "key_headers =
     [(''Authorization'', ''Bearer key-1''), (''Content-Type'', ''application/json''),
      (''Accept'', ''application/json'')]"

text \<open>
  Caller input that carries a closing-delimiter pattern and the opening of a second
  operation, and a raw query that carries a reflection marker.
\<close>

definition hostile_filter :: string where
  \<open>hostile_filter = ''x"}} mutation { y''\<close>

definition reflecting_query :: string where
  "reflecting_query = ''query { __typename }''"







section \<open>Facts about the JavaScript operators\<close>

lemma or_num_None: "or_num None d = d"
  by (simp add: or_num_def)

lemma or_num_zero: "or_num (Some 0) d = d"
  by (simp add: or_num_def)

lemma or_num_nonzero: "n \<noteq> 0 \<Longrightarrow> or_num (Some n) d = n"
  by (simp add: or_num_def)

lemma show_num_100: "show_num 100 = ''100''"
  by code_simp

lemma show_num_50: "show_num 50 = ''50''"
  by code_simp

lemma show_num_1000: "show_num 1000 = ''1000''"
  by code_simp

lemma show_num_7: "show_num 7 = ''7''"
  by code_simp


section \<open>The result-count limit\<close>

text \<open>
  Every builder with a limit puts it into the hole of \<open>nodes(first: ...)\<close>, the third
  piece of its template.
\<close>

lemma first_slot:
  assumes "suffix ''nodes(first: '' a" and "prefix '')'' c"
  shows "sublist (''nodes(first: '' @ m @ '')'') (p1 @ p2 @ a @ m @ c)"
proof -
  from assms obtain a0 c0 where "a = a0 @ ''nodes(first: ''" and "c = '')'' @ c0"
    by (auto simp: suffix_def prefix_def)
  then have "p1 @ p2 @ a @ m @ c = (p1 @ p2 @ a0) @ (''nodes(first: '' @ m @ '')'') @ c0"
    by simp
  then show ?thesis
    unfolding sublist_def by blast
qed

lemma assets_first:
  "sublist (''nodes(first: '' @ show_num n @ '')'') (assetsDocument fs n fl)"
  unfolding assetsDocument_def by (rule first_slot) (simp_all add: suffix_to_prefix)

lemma vulnerabilities_first:
  "sublist (''nodes(first: '' @ show_num n @ '')'') (vulnerabilitiesDocument fs n b)"
  unfolding vulnerabilitiesDocument_def by (rule first_slot) (simp_all add: suffix_to_prefix)

lemma findings_first:
  "sublist (''nodes(first: '' @ show_num n @ '')'') (findingsDocument fs n)"
  unfolding findingsDocument_def by (rule first_slot) (simp_all add: suffix_to_prefix)

lemma tickets_first:
  "sublist (''nodes(first: '' @ show_num n @ '')'') (ticketsDocument fs n)"
  unfolding ticketsDocument_def by (rule first_slot) (simp_all add: suffix_to_prefix)

lemma clusters_first:
  "sublist (''nodes(first: '' @ show_num n @ '')'') (clustersDocument fs n)"
  unfolding clustersDocument_def by (rule first_slot) (simp_all add: suffix_to_prefix)

lemma assets_limit_slot:
  "buildAssetsQuery a =
     assetsDocument (filterStr (assetsFilters a))
       (case assets_limit a of None \<Rightarrow> 100 | Some n \<Rightarrow> if n = 0 then 100 else min n 1000)
       (assetsFieldSelection a)"
  by (simp add: buildAssetsQuery_def or_num_def split: option.split)

lemma vulnerabilities_limit_slot:
  "buildVulnerabilitiesQuery v =
     vulnerabilitiesDocument (filterStr (vulnerabilitiesFilters v))
       (case vulnerabilities_limit v of None \<Rightarrow> 100
        | Some n \<Rightarrow> if n = 0 then 100 else min n 1000)
       (if truthy_bool (include_affected_assets v) then affectedAssetsBlock else '''')"
  by (simp add: buildVulnerabilitiesQuery_def or_num_def split: option.split)

lemma findings_limit_slot:
  "buildFindingsQuery f =
     findingsDocument (filterStr (findingsFilters f))
       (case findings_limit f of None \<Rightarrow> 100 | Some n \<Rightarrow> if n = 0 then 100 else min n 1000)"
  by (simp add: buildFindingsQuery_def or_num_def split: option.split)

lemma tickets_limit_slot:
  "buildTicketsQuery t =
     ticketsDocument (filterStr (ticketsFilters t))
       (case tickets_limit t of None \<Rightarrow> 100 | Some n \<Rightarrow> if n = 0 then 100 else min n 1000)"
  by (simp add: buildTicketsQuery_def or_num_def split: option.split)

lemma clusters_limit_slot:
  "buildClustersQuery c =
     clustersDocument (filterStr (clustersFilters c))
       (case clusters_limit c of None \<Rightarrow> 50 | Some n \<Rightarrow> if n = 0 then 50 else min n 500)"
  by (simp add: buildClustersQuery_def or_num_def split: option.split)

text \<open>
  C10. A limit of 0 is treated as if the limit were unset: each builder returns the
  document it returns without a limit, whose \<open>nodes(first: ...)\<close> holds the default
  (100, and 50 for clusters).
\<close>

theorem zero_limit_is_unset:
  "buildAssetsQuery (a\<lparr>assets_limit := Some 0\<rparr>) = buildAssetsQuery (a\<lparr>assets_limit := None\<rparr>) \<and>
   buildAssetsQuery (a\<lparr>assets_limit := Some 0\<rparr>) =
     assetsDocument (filterStr (assetsFilters a)) 100 (assetsFieldSelection a) \<and>
   sublist ''nodes(first: 100)'' (buildAssetsQuery (a\<lparr>assets_limit := Some 0\<rparr>)) \<and>
   buildVulnerabilitiesQuery (v\<lparr>vulnerabilities_limit := Some 0\<rparr>) =
     buildVulnerabilitiesQuery (v\<lparr>vulnerabilities_limit := None\<rparr>) \<and>
   buildVulnerabilitiesQuery (v\<lparr>vulnerabilities_limit := Some 0\<rparr>) =
     vulnerabilitiesDocument (filterStr (vulnerabilitiesFilters v)) 100
       (if truthy_bool (include_affected_assets v) then affectedAssetsBlock else '''') \<and>
   sublist ''nodes(first: 100)'' (buildVulnerabilitiesQuery (v\<lparr>vulnerabilities_limit := Some 0\<rparr>)) \<and>
   buildFindingsQuery (f\<lparr>findings_limit := Some 0\<rparr>) =
     buildFindingsQuery (f\<lparr>findings_limit := None\<rparr>) \<and>
   buildFindingsQuery (f\<lparr>findings_limit := Some 0\<rparr>) =
     findingsDocument (filterStr (findingsFilters f)) 100 \<and>
   sublist ''nodes(first: 100)'' (buildFindingsQuery (f\<lparr>findings_limit := Some 0\<rparr>)) \<and>
   buildTicketsQuery (t\<lparr>tickets_limit := Some 0\<rparr>) =
     buildTicketsQuery (t\<lparr>tickets_limit := None\<rparr>) \<and>
   buildTicketsQuery (t\<lparr>tickets_limit := Some 0\<rparr>) =
     ticketsDocument (filterStr (ticketsFilters t)) 100 \<and>
   sublist ''nodes(first: 100)'' (buildTicketsQuery (t\<lparr>tickets_limit := Some 0\<rparr>)) \<and>
   buildClustersQuery (c\<lparr>clusters_limit := Some 0\<rparr>) =
     buildClustersQuery (c\<lparr>clusters_limit := None\<rparr>) \<and>
   buildClustersQuery (c\<lparr>clusters_limit := Some 0\<rparr>) =
     clustersDocument (filterStr (clustersFilters c)) 50 \<and>
   sublist ''nodes(first: 50)'' (buildClustersQuery (c\<lparr>clusters_limit := Some 0\<rparr>))"
proof -
  have A: "buildAssetsQuery (a\<lparr>assets_limit := Some 0\<rparr>) =
             assetsDocument (filterStr (assetsFilters a)) 100 (assetsFieldSelection a)"
    and A': "buildAssetsQuery (a\<lparr>assets_limit := None\<rparr>) =
             assetsDocument (filterStr (assetsFilters a)) 100 (assetsFieldSelection a)"
    by (simp_all add: buildAssetsQuery_def or_num_def assetsFilters_def assetsFieldSelection_def)
  have V: "buildVulnerabilitiesQuery (v\<lparr>vulnerabilities_limit := Some 0\<rparr>) =
             vulnerabilitiesDocument (filterStr (vulnerabilitiesFilters v)) 100
               (if truthy_bool (include_affected_assets v) then affectedAssetsBlock else '''')"
    and V': "buildVulnerabilitiesQuery (v\<lparr>vulnerabilities_limit := None\<rparr>) =
             vulnerabilitiesDocument (filterStr (vulnerabilitiesFilters v)) 100
               (if truthy_bool (include_affected_assets v) then affectedAssetsBlock else '''')"
    by (simp_all add: buildVulnerabilitiesQuery_def or_num_def vulnerabilitiesFilters_def)
  have F: "buildFindingsQuery (f\<lparr>findings_limit := Some 0\<rparr>) =
             findingsDocument (filterStr (findingsFilters f)) 100"
    and F': "buildFindingsQuery (f\<lparr>findings_limit := None\<rparr>) =
             findingsDocument (filterStr (findingsFilters f)) 100"
    by (simp_all add: buildFindingsQuery_def or_num_def findingsFilters_def)
  have T: "buildTicketsQuery (t\<lparr>tickets_limit := Some 0\<rparr>) =
             ticketsDocument (filterStr (ticketsFilters t)) 100"
    and T': "buildTicketsQuery (t\<lparr>tickets_limit := None\<rparr>) =
             ticketsDocument (filterStr (ticketsFilters t)) 100"
    by (simp_all add: buildTicketsQuery_def or_num_def ticketsFilters_def)
  have C: "buildClustersQuery (c\<lparr>clusters_limit := Some 0\<rparr>) =
             clustersDocument (filterStr (clustersFilters c)) 50"
    and C': "buildClustersQuery (c\<lparr>clusters_limit := None\<rparr>) =
             clustersDocument (filterStr (clustersFilters c)) 50"
    by (simp_all add: buildClustersQuery_def or_num_def clustersFilters_def)
  have "sublist ''nodes(first: 100)'' (buildAssetsQuery (a\<lparr>assets_limit := Some 0\<rparr>))"
    using assets_first [of 100] by (simp add: A show_num_100)
  moreover
  have "sublist ''nodes(first: 100)'' (buildVulnerabilitiesQuery (v\<lparr>vulnerabilities_limit := Some 0\<rparr>))"
    using vulnerabilities_first [of 100] by (simp only: V show_num_100 append.simps)
  moreover
  have "sublist ''nodes(first: 100)'' (buildFindingsQuery (f\<lparr>findings_limit := Some 0\<rparr>))"
    using findings_first [of 100] by (simp add: F show_num_100)
  moreover
  have "sublist ''nodes(first: 100)'' (buildTicketsQuery (t\<lparr>tickets_limit := Some 0\<rparr>))"
    using tickets_first [of 100] by (simp add: T show_num_100)
  moreover
  have "sublist ''nodes(first: 50)'' (buildClustersQuery (c\<lparr>clusters_limit := Some 0\<rparr>))"
    using clusters_first [of 50] by (simp add: C show_num_50)
  ultimately show ?thesis
    using A A' V V' F F' T T' C C' by simp
qed

section \<open>The session\<close>

lemma authenticate_fast_path:
  "truthy_str (accessToken s) \<Longrightarrow> now s < tokenExpiry s \<Longrightarrow> authenticate cfg rem s = (Inr (), s)"
  by (simp add: authenticate_def)

lemma authenticate_api_key:
  assumes "\<not> (truthy_str (accessToken s) \<and> now s < tokenExpiry s)"
      and "BRINQA_API_KEY cfg \<noteq> []"
  shows "authenticate cfg rem s =
           (Inr (), s\<lparr>accessToken := Some (BRINQA_API_KEY cfg),
                       tokenExpiry := now s + 24 * 60 * 60 * 1000\<rparr>)"
  using assms by (auto simp add: authenticate_def)

lemma authenticate_login:
  assumes "\<not> (truthy_str (accessToken s) \<and> now s < tokenExpiry s)"
      and "BRINQA_API_KEY cfg = []"
      and "BRINQA_USERNAME cfg \<noteq> []" and "BRINQA_PASSWORD cfg \<noteq> []"
      and "login rem (length (requests s)) = Resolved r"
  shows "authenticate cfg rem s =
           (Inr (), (send rem (LoginRequest (BRINQA_USERNAME cfg) (BRINQA_PASSWORD cfg)) s)
                      \<lparr>accessToken := Some (access_token r),
                       tokenExpiry :=
                         now (send rem (LoginRequest (BRINQA_USERNAME cfg) (BRINQA_PASSWORD cfg)) s)
                         + (expires_in r - 300) * 1000\<rparr>)"
  using assms by (auto simp add: authenticate_def Let_def)

text \<open>
  C4. When the session is absent or stale: with a static API key configured, the
  credential becomes the key and the expiry the clock reading plus 24 hours, and no
  request is issued; otherwise, after a login that returns a lifetime of \<open>expires_in\<close>
  seconds, the credential becomes the returned token and the expiry the clock reading at
  that moment plus \<open>expires_in - 300\<close> seconds. Clock and expiry are in milliseconds.
\<close>

theorem session_expiry_on_authentication:
  assumes "\<not> (truthy_str (accessToken s) \<and> now s < tokenExpiry s)"
  shows
    "(BRINQA_API_KEY cfg \<noteq> [] \<longrightarrow>
        authenticate cfg rem s =
          (Inr (), s\<lparr>accessToken := Some (BRINQA_API_KEY cfg),
                      tokenExpiry := now s + 24 * 60 * 60 * 1000\<rparr>)) \<and>
     (BRINQA_API_KEY cfg = [] \<and> BRINQA_USERNAME cfg \<noteq> [] \<and> BRINQA_PASSWORD cfg \<noteq> [] \<and>
      login rem (length (requests s)) = Resolved r \<longrightarrow>
        (\<exists>s'. authenticate cfg rem s = (Inr (), s') \<and>
              accessToken s' = Some (access_token r) \<and>
              tokenExpiry s' = now s' + (expires_in r - 300) * 1000 \<and>
              now s' = now s + int (latency rem (length (requests s))) \<and>
              requests s' =
                requests s @ [LoginRequest (BRINQA_USERNAME cfg) (BRINQA_PASSWORD cfg)]))"
proof (intro conjI impI)
  assume "BRINQA_API_KEY cfg \<noteq> []"
  with assms show "authenticate cfg rem s =
      (Inr (), s\<lparr>accessToken := Some (BRINQA_API_KEY cfg),
                  tokenExpiry := now s + 24 * 60 * 60 * 1000\<rparr>)"
    by (rule authenticate_api_key)
next
  assume "BRINQA_API_KEY cfg = [] \<and> BRINQA_USERNAME cfg \<noteq> [] \<and> BRINQA_PASSWORD cfg \<noteq> [] \<and>
          login rem (length (requests s)) = Resolved r"
  with assms have "authenticate cfg rem s =
           (Inr (), (send rem (LoginRequest (BRINQA_USERNAME cfg) (BRINQA_PASSWORD cfg)) s)
                      \<lparr>accessToken := Some (access_token r),
                       tokenExpiry :=
                         now (send rem (LoginRequest (BRINQA_USERNAME cfg) (BRINQA_PASSWORD cfg)) s)
                         + (expires_in r - 300) * 1000\<rparr>)"
    by (intro authenticate_login) simp_all
  then show "\<exists>s'. authenticate cfg rem s = (Inr (), s') \<and>
              accessToken s' = Some (access_token r) \<and>
              tokenExpiry s' = now s' + (expires_in r - 300) * 1000 \<and>
              now s' = now s + int (latency rem (length (requests s))) \<and>
              requests s' =
                requests s @ [LoginRequest (BRINQA_USERNAME cfg) (BRINQA_PASSWORD cfg)]"
    by (simp add: send_def)
qed

text \<open>
  At clock reading 1000 a fresh client with the API key gets the expiry
  1000 + 86400000; with a password, a login that takes 5 ms and returns a lifetime of
  86400 s gives the expiry 1005 + 86100000.
\<close>

theorem session_expiry_on_authentication_witness:
  "authenticate key_config serving fresh =
     (Inr (), \<lparr>accessToken = Some ''key-1'', tokenExpiry = 86401000, now = 1000,
               requests = []\<rparr>) \<and>
   authenticate password_config serving fresh =
     (Inr (), \<lparr>accessToken = Some ''tok'', tokenExpiry = 86101005, now = 1005,
               requests = [LoginRequest ''analyst'' ''secret'']\<rparr>)"
proof -
  have stale: "\<not> (truthy_str (accessToken fresh) \<and> now fresh < tokenExpiry fresh)"
    by (simp add: fresh_def truthy_str_def)
  have "authenticate key_config serving fresh =
     (Inr (), \<lparr>accessToken = Some ''key-1'', tokenExpiry = 86401000, now = 1000,
               requests = []\<rparr>)"
    using session_expiry_on_authentication [OF stale, of key_config serving undefined]
    by (simp add: key_config_def fresh_def)
  moreover
  have "authenticate password_config serving fresh =
     (Inr (), \<lparr>accessToken = Some ''tok'', tokenExpiry = 86101005, now = 1005,
               requests = [LoginRequest ''analyst'' ''secret'']\<rparr>)"
    using session_expiry_on_authentication
      [OF stale, of password_config serving
         "\<lparr>access_token = ''tok'', token_type = ''Bearer'', expires_in = 86400\<rparr>"]
    by (auto simp add: password_config_def fresh_def serving_def)
  ultimately show ?thesis by simp
qed

lemma headers_of_token:
  assumes "getAuthHeaders cfg rem s = (Inr h, s1)" and "accessToken s1 = Some tok"
  shows "h = [(''Authorization'', ''Bearer '' @ tok), (''Content-Type'', ''application/json''),
              (''Accept'', ''application/json'')]"
  using assms by (auto simp add: getAuthHeaders_def split: prod.splits sum.splits)

text \<open>
  C6. While a session exists (the credential is set, which for a string means set and
  not empty) and the clock is before its expiry, \<open>getAuthHeaders\<close> leaves the state as
  it is, so it issues no request, and its Authorization header carries the existing
  credential. And after any call that returned headers and left a credential, a call at
  any clock reading before the expiry returns the same headers and issues no request.
\<close>

theorem valid_session_is_reused:
  "(truthy_str (accessToken s) \<and> now s < tokenExpiry s \<longrightarrow>
      getAuthHeaders cfg rem s =
        (Inr [(''Authorization'', ''Bearer '' @ the (accessToken s)),
              (''Content-Type'', ''application/json''), (''Accept'', ''application/json'')], s)) \<and>
   (getAuthHeaders cfg rem s0 = (Inr h, s1) \<and> truthy_str (accessToken s1) \<and>
    t < tokenExpiry s1 \<longrightarrow>
      getAuthHeaders cfg rem (s1\<lparr>now := t\<rparr>) = (Inr h, s1\<lparr>now := t\<rparr>) \<and>
      requests (s1\<lparr>now := t\<rparr>) = requests s1)"
proof (intro conjI impI)
  assume "truthy_str (accessToken s) \<and> now s < tokenExpiry s"
  then show "getAuthHeaders cfg rem s =
        (Inr [(''Authorization'', ''Bearer '' @ the (accessToken s)),
              (''Content-Type'', ''application/json''), (''Accept'', ''application/json'')], s)"
    by (auto simp add: getAuthHeaders_def authenticate_fast_path truthy_str_def
          split: option.splits)
next
  assume a: "getAuthHeaders cfg rem s0 = (Inr h, s1) \<and> truthy_str (accessToken s1) \<and>
             t < tokenExpiry s1"
  then obtain tok where tok: "accessToken s1 = Some tok"
    by (auto simp add: truthy_str_def split: option.splits)
  with a have h: "h = [(''Authorization'', ''Bearer '' @ tok),
                       (''Content-Type'', ''application/json''), (''Accept'', ''application/json'')]"
    using headers_of_token by blast
  from a have "authenticate cfg rem (s1\<lparr>now := t\<rparr>) = (Inr (), s1\<lparr>now := t\<rparr>)"
    by (intro authenticate_fast_path) simp_all
  with tok h show "getAuthHeaders cfg rem (s1\<lparr>now := t\<rparr>) = (Inr h, s1\<lparr>now := t\<rparr>)"
    by (simp add: getAuthHeaders_def)
  show "requests (s1\<lparr>now := t\<rparr>) = requests s1"
    by simp
qed

text \<open>
  A first call logs in at clock reading 1000; a second call one minute later returns
  the same headers, and the login request is still the only request.
\<close>

theorem valid_session_is_reused_witness:
  "getAuthHeaders password_config serving fresh =
     (Inr [(''Authorization'', ''Bearer tok''), (''Content-Type'', ''application/json''),
           (''Accept'', ''application/json'')],
      \<lparr>accessToken = Some ''tok'', tokenExpiry = 86101005, now = 1005,
        requests = [LoginRequest ''analyst'' ''secret'']\<rparr>) \<and>
   getAuthHeaders password_config serving
      \<lparr>accessToken = Some ''tok'', tokenExpiry = 86101005, now = 61005,
        requests = [LoginRequest ''analyst'' ''secret'']\<rparr> =
     (Inr [(''Authorization'', ''Bearer tok''), (''Content-Type'', ''application/json''),
           (''Accept'', ''application/json'')],
      \<lparr>accessToken = Some ''tok'', tokenExpiry = 86101005, now = 61005,
        requests = [LoginRequest ''analyst'' ''secret'']\<rparr>)"
proof -
  let ?h = "[(''Authorization'', ''Bearer tok''), (''Content-Type'', ''application/json''),
             (''Accept'', ''application/json'')]"
  let ?s1 = "\<lparr>accessToken = Some ''tok'', tokenExpiry = 86101005, now = 1005,
              requests = [LoginRequest ''analyst'' ''secret'']\<rparr>"
  have first: "getAuthHeaders password_config serving fresh = (Inr ?h, ?s1)"
    by (simp add: getAuthHeaders_def authenticate_def password_config_def serving_def
          fresh_def send_def truthy_str_def)
  have "getAuthHeaders password_config serving (?s1\<lparr>now := 61005\<rparr>) =
          (Inr ?h, ?s1\<lparr>now := 61005\<rparr>)"
    using valid_session_is_reused [of ?s1 password_config serving fresh ?h ?s1 61005] first
    by (simp add: truthy_str_def)
  with first show ?thesis by simp
qed

section \<open>The executor\<close>

lemma api_key_gives_headers:
  "BRINQA_API_KEY cfg \<noteq> [] \<Longrightarrow> \<exists>hdrs s1. getAuthHeaders cfg rem s = (Inr hdrs, s1)"
  by (simp add: getAuthHeaders_def authenticate_def)

lemma password_gives_headers:
  assumes "BRINQA_USERNAME cfg \<noteq> []" and "BRINQA_PASSWORD cfg \<noteq> []"
      and "\<forall>k. \<exists>r. login rem k = Resolved r"
  shows "\<exists>hdrs s1. getAuthHeaders cfg rem s = (Inr hdrs, s1)"
proof -
  from assms(3) obtain r where "login rem (length (requests s)) = Resolved r"
    by blast
  with assms(1,2) show ?thesis
    by (simp add: getAuthHeaders_def authenticate_def Let_def)
qed

text \<open>
  A request that fails with status 401 clears the credential and the expiry and runs
  the entire call again, from obtaining the headers on.
\<close>

lemma retry_on_401:
  assumes "getAuthHeaders cfg rem s = (Inr hdrs, s1)"
      and "graphql rem (length (requests s1)) = AxiosError (Some 401) rm em"
  shows "executeGraphQL cfg rem q v s =
           executeGraphQL cfg rem q v
             ((send rem (GraphQLRequest hdrs q v) s1)\<lparr>accessToken := None, tokenExpiry := 0\<rparr>)"
  using assms by (subst executeGraphQL.simps) (simp add: Let_def)

text \<open>
  Nothing counts the attempts. When headers can always be obtained and the service
  answers every GraphQL request with status 401, \<open>executeGraphQL\<close> keeps retrying:
  no result, and no error either, is ever returned.
\<close>

lemma chronic_401_no_result:
  assumes "executeGraphQL cfg rem q v s = Some y"
  shows "(\<forall>s. \<exists>hdrs s1. getAuthHeaders cfg rem s = (Inr hdrs, s1)) \<longrightarrow>
         (\<forall>k. \<exists>rm em. graphql rem k = AxiosError (Some 401) rm em) \<longrightarrow> False"
proof (rule executeGraphQL.raw_induct
         [where P = "\<lambda>cfg rem q v s y.
                       (\<forall>s. \<exists>hdrs s1. getAuthHeaders cfg rem s = (Inr hdrs, s1)) \<longrightarrow>
                       (\<forall>k. \<exists>rm em. graphql rem k = AxiosError (Some 401) rm em) \<longrightarrow> False",
          OF _ assms], goal_cases)
  case (1 f cfg rem q v s y)
  show ?case
  proof (intro impI)
    assume auth: "\<forall>s. \<exists>hdrs s1. getAuthHeaders cfg rem s = (Inr hdrs, s1)"
      and rej: "\<forall>k. \<exists>rm em. graphql rem k = AxiosError (Some 401) rm em"
    from auth obtain hdrs s1 where h: "getAuthHeaders cfg rem s = (Inr hdrs, s1)"
      by blast
    from rej obtain rm em
      where g: "graphql rem (length (requests s1)) = AxiosError (Some 401) rm em"
      by blast
    from 1(2) h g
    have "f cfg rem q v
            ((send rem (GraphQLRequest hdrs q v) s1)\<lparr>accessToken := None, tokenExpiry := 0\<rparr>)
          = Some y"
      by (simp add: Let_def)
    from 1(1)[OF this] auth rej show False by blast
  qed
qed

lemma chronic_401_never_returns:
  assumes "\<forall>s. \<exists>hdrs s1. getAuthHeaders cfg rem s = (Inr hdrs, s1)"
      and "\<forall>k. \<exists>rm em. graphql rem k = AxiosError (Some 401) rm em"
  shows "executeGraphQL cfg rem q v s = None"
  using assms chronic_401_no_result by (cases "executeGraphQL cfg rem q v s") blast+

text \<open>
  C1. The claim allows one retry and then a failure. The code does otherwise: when
  the service rejects the first two requests with status 401 and accepts the third, the
  call does not fail after the second rejection but issues a third request and returns
  its payload; and when the service rejects every request, the call never returns, with
  a static API key as with a password (where every retry logs in again).
\<close>

theorem second_401_is_retried:
  "executeGraphQL key_config rejecting_twice ''query { assets { totalCount } }'' None fresh =
     Some (Inr ''{}'',
           \<lparr>accessToken = Some ''key-1'', tokenExpiry = 86401010, now = 1015,
            requests =
              [GraphQLRequest key_headers ''query { assets { totalCount } }'' None,
               GraphQLRequest key_headers ''query { assets { totalCount } }'' None,
               GraphQLRequest key_headers ''query { assets { totalCount } }'' None]\<rparr>) \<and>
   executeGraphQL key_config rejecting_always ''query { assets { totalCount } }'' None fresh = None \<and>
   executeGraphQL password_config rejecting_always ''query { assets { totalCount } }'' None fresh
     = None"
proof -
  have rejected: "\<forall>k. \<exists>rm em. graphql rejecting_always k = AxiosError (Some 401) rm em"
    by (simp add: rejecting_always_def unauthorized_def)
  have "\<forall>s. \<exists>hdrs s1. getAuthHeaders key_config rejecting_always s = (Inr hdrs, s1)"
    by (intro allI api_key_gives_headers) (simp add: key_config_def)
  then have key:
    "executeGraphQL key_config rejecting_always ''query { assets { totalCount } }'' None fresh
     = None"
    using rejected by (rule chronic_401_never_returns)
  have "\<forall>s. \<exists>hdrs s1. getAuthHeaders password_config rejecting_always s = (Inr hdrs, s1)"
    by (intro allI password_gives_headers)
       (simp_all add: password_config_def rejecting_always_def serving_def)
  then have password:
    "executeGraphQL password_config rejecting_always ''query { assets { totalCount } }'' None
       fresh = None"
    using rejected by (rule chronic_401_never_returns)
  have "executeGraphQL key_config rejecting_twice ''query { assets { totalCount } }'' None fresh =
     Some (Inr ''{}'',
           \<lparr>accessToken = Some ''key-1'', tokenExpiry = 86401010, now = 1015,
            requests =
              [GraphQLRequest key_headers ''query { assets { totalCount } }'' None,
               GraphQLRequest key_headers ''query { assets { totalCount } }'' None,
               GraphQLRequest key_headers ''query { assets { totalCount } }'' None]\<rparr>)"
    by code_simp
  with key password show ?thesis
    by simp
qed

section \<open>Caller input reaches the wire unchecked\<close>

text \<open>
  C9. The handler passes the query text of \<open>execute_graphql\<close> straight to
  \<open>executeGraphQL\<close>. With an empty query text and a password configured, the call
  logs in, posts the empty query and returns the payload as a success: nothing is
  validated and two requests are issued.
\<close>

theorem empty_query_is_sent:
  "callTool password_config serving (execute_graphql '''' None) fresh =
     Some (\<lparr>content_text = ''{}'', isError = False\<rparr>,
           \<lparr>accessToken = Some ''tok'', tokenExpiry = 86101005, now = 1010,
            requests =
              [LoginRequest ''analyst'' ''secret'',
               GraphQLRequest
                 [(''Authorization'', ''Bearer tok''), (''Content-Type'', ''application/json''),
                  (''Accept'', ''application/json'')] '''' None]\<rparr>)"
  by code_simp

text \<open>
  C2. A raw query with a reflection marker is posted as it is, and a filter value with
  a closing-delimiter pattern and the opening of a second operation is interpolated
  into the assets document, which is posted: both calls succeed.
\<close>

theorem hostile_input_is_sent:
  "callTool key_config serving (execute_graphql reflecting_query None) fresh =
     Some (\<lparr>content_text = ''{}'', isError = False\<rparr>,
           \<lparr>accessToken = Some ''key-1'', tokenExpiry = 86401000, now = 1005,
            requests = [GraphQLRequest key_headers reflecting_query None]\<rparr>) \<and>
   callTool key_config serving
       (query_assets (no_assets_params\<lparr>assets_filter := Some hostile_filter\<rparr>)) fresh =
     Some (\<lparr>content_text = ''{}'', isError = False\<rparr>,
           \<lparr>accessToken = Some ''key-1'', tokenExpiry = 86401000, now = 1005,
            requests =
              [GraphQLRequest key_headers
                 (buildAssetsQuery (no_assets_params\<lparr>assets_filter := Some hostile_filter\<rparr>))
                 None]\<rparr>) \<and>
   sublist hostile_filter
     (buildAssetsQuery (no_assets_params\<lparr>assets_filter := Some hostile_filter\<rparr>))"
  by code_simp

section \<open>The shape of a risk-score document\<close>

text \<open>
  C7. The risk-score document is the single-entity lookup exactly when the scope is
  \<open>ASSET\<close> and an entity identifier is supplied (set and not empty), and it is the
  organization-wide summary in every other case.
\<close>

theorem risk_scores_shape:
  "(is_asset_lookup (buildRiskScoresQuery p) \<longleftrightarrow>
      scope p = Some ''ASSET'' \<and> truthy_str (entity_id p)) \<and>
   (is_risk_summary (buildRiskScoresQuery p) \<longleftrightarrow>
      \<not> (scope p = Some ''ASSET'' \<and> truthy_str (entity_id p))) \<and>
   buildRiskScoresQuery p =
     (if scope p = Some ''ASSET'' \<and> truthy_str (entity_id p)
      then assetRiskScoreDocument (the (entity_id p))
             (if truthy_bool (include_factors p) then riskFactorsBlock else '''')
             (if truthy_bool (include_trends p) then riskTrendsBlock else '''')
      else riskSummaryDocument
             (if truthy_bool (include_factors p) then riskFactorsBlock else '''')
             (if truthy_bool (include_trends p) then riskTrendsBlock else ''''))"
  by (auto simp add: is_asset_lookup_def is_risk_summary_def buildRiskScoresQuery_def
        assetRiskScoreDocument_def riskSummaryDocument_def truthy_str_def interp_str_def
        split: option.splits)

text \<open>
  Scope \<open>ASSET\<close> with entity \<open>host-1\<close> gives the lookup; scope \<open>ORGANIZATION\<close> with
  the same entity, scope \<open>ASSET\<close> without an entity, and no parameters at all give the
  summary.
\<close>

theorem risk_scores_shape_witness:
  "is_asset_lookup
     (buildRiskScoresQuery (no_risk_scores_params\<lparr>scope := Some ''ASSET'', entity_id := Some ''host-1''\<rparr>)) \<and>
   \<not> is_risk_summary
     (buildRiskScoresQuery (no_risk_scores_params\<lparr>scope := Some ''ASSET'', entity_id := Some ''host-1''\<rparr>)) \<and>
   is_risk_summary
     (buildRiskScoresQuery
        (no_risk_scores_params\<lparr>scope := Some ''ORGANIZATION'', entity_id := Some ''host-1''\<rparr>)) \<and>
   is_risk_summary (buildRiskScoresQuery (no_risk_scores_params\<lparr>scope := Some ''ASSET''\<rparr>)) \<and>
   is_risk_summary (buildRiskScoresQuery no_risk_scores_params)"
proof -
  let ?lookup = "no_risk_scores_params\<lparr>scope := Some ''ASSET'', entity_id := Some ''host-1''\<rparr>"
  let ?other = "no_risk_scores_params\<lparr>scope := Some ''ORGANIZATION'', entity_id := Some ''host-1''\<rparr>"
  let ?bare = "no_risk_scores_params\<lparr>scope := Some ''ASSET''\<rparr>"
  have "is_asset_lookup (buildRiskScoresQuery ?lookup)"
    using risk_scores_shape [of ?lookup, THEN conjunct1]
    by (simp add: no_risk_scores_params_def truthy_str_def)
  moreover
  have "\<not> is_risk_summary (buildRiskScoresQuery ?lookup)"
    using risk_scores_shape [of ?lookup, THEN conjunct2, THEN conjunct1]
    by (simp add: no_risk_scores_params_def truthy_str_def)
  moreover
  have "is_risk_summary (buildRiskScoresQuery ?other)"
    using risk_scores_shape [of ?other, THEN conjunct2, THEN conjunct1]
    by (simp add: no_risk_scores_params_def truthy_str_def)
  moreover
  have "is_risk_summary (buildRiskScoresQuery ?bare)"
    using risk_scores_shape [of ?bare, THEN conjunct2, THEN conjunct1]
    by (simp add: no_risk_scores_params_def truthy_str_def)
  moreover
  have "is_risk_summary (buildRiskScoresQuery no_risk_scores_params)"
    using risk_scores_shape [of no_risk_scores_params, THEN conjunct2, THEN conjunct1]
    by (simp add: no_risk_scores_params_def truthy_str_def)
  ultimately show ?thesis
    by blast
qed

section \<open>Words that a document does not contain\<close>

lemma not_sublist_append:
  assumes "\<not> sublist w a" and "\<not> sublist w b"
      and "a = [] \<or> b = [] \<or> last a \<notin> set w \<or> hd b \<notin> set w"
  shows "\<not> sublist w (a @ b)"
proof
  assume "sublist w (a @ b)"
  with assms(1,2) obtain w1 w2 where w: "w = w1 @ w2" "suffix w1 a" "prefix w2 b"
    by (auto simp: sublist_append)
  from w assms(1,2) have "w1 \<noteq> []" "w2 \<noteq> []"
    by auto
  with w have "a \<noteq> []" "b \<noteq> []" "last a = last w1" "hd b = hd w2"
    by (auto simp: suffix_def prefix_def)
  moreover from w \<open>w1 \<noteq> []\<close> \<open>w2 \<noteq> []\<close> have "last w1 \<in> set w" "hd w2 \<in> set w"
    by auto
  ultimately show False
    using assms(3) by auto
qed

lemma insert_free:
  assumes "\<not> sublist w (a @ b)" and "a \<noteq> []" and "b \<noteq> []" and "fits w a x b"
  shows "\<not> sublist w (a @ x @ b)"
proof (cases "x = []")
  case True
  with assms(1) show ?thesis by simp
next
  case False
  from assms(1) have a: "\<not> sublist w a" and b: "\<not> sublist w b"
    by (auto simp: sublist_append)
  from assms(4) False have x: "\<not> sublist w x"
    and l: "last a \<notin> set w \<or> hd x \<notin> set w" and r: "last x \<notin> set w \<or> hd b \<notin> set w"
    by (auto simp: fits_def)
  have xb: "\<not> sublist w (x @ b)"
    by (rule not_sublist_append [OF x b]) (use r in auto)
  show ?thesis
    by (rule not_sublist_append [OF a xb]) (use l False in auto)
qed

lemma fits_last: "k2 \<noteq> [] \<Longrightarrow> fits w k2 x k3 \<Longrightarrow> fits w (k1 @ k2) x k3"
  by (simp add: fits_def)

lemma fits_hd: "k2 \<noteq> [] \<Longrightarrow> fits w k1 x k2 \<Longrightarrow> fits w k1 x (k2 @ r)"
  by (simp add: fits_def)

lemma hole1:
  assumes "\<not> sublist w (k1 @ k2)" and "k1 \<noteq> []" and "k2 \<noteq> []" and "fits w k1 x k2"
  shows "\<not> sublist w (k1 @ x @ k2)"
  using assms by (rule insert_free)

lemma hole2:
  assumes free: "\<not> sublist w (k1 @ k2 @ k3)"
      and ne: "k1 \<noteq> []" "k2 \<noteq> []" "k3 \<noteq> []"
      and x: "fits w k1 x k2" and y: "fits w k2 y k3"
  shows "\<not> sublist w (k1 @ x @ k2 @ y @ k3)"
proof -
  from free have "\<not> sublist w ((k1 @ k2) @ k3)"
    by simp
  then have "\<not> sublist w ((k1 @ k2) @ y @ k3)"
    by (rule insert_free) (use ne y in \<open>simp_all add: fits_last\<close>)
  then have "\<not> sublist w (k1 @ (k2 @ y @ k3))"
    by simp
  then show ?thesis
    by (rule insert_free) (use ne x in \<open>simp_all add: fits_hd\<close>)
qed

lemma hole3:
  assumes free: "\<not> sublist w (k1 @ k2 @ k3 @ k4)"
      and ne: "k1 \<noteq> []" "k2 \<noteq> []" "k3 \<noteq> []" "k4 \<noteq> []"
      and x: "fits w k1 x k2" and y: "fits w k2 y k3" and z: "fits w k3 z k4"
  shows "\<not> sublist w (k1 @ x @ k2 @ y @ k3 @ z @ k4)"
proof -
  from free have "\<not> sublist w ((k1 @ k2) @ k3 @ k4)"
    by simp
  then have "\<not> sublist w ((k1 @ k2) @ y @ k3 @ z @ k4)"
    by (rule hole2) (use ne y z in \<open>simp_all add: fits_last\<close>)
  then have "\<not> sublist w (k1 @ (k2 @ y @ k3 @ z @ k4))"
    by simp
  then show ?thesis
    by (rule insert_free) (use ne x in \<open>simp_all add: fits_hd\<close>)
qed

lemma foreign_free:
  assumes "w \<noteq> []" and "set x \<inter> set w = {}"
  shows "\<not> sublist w x"
proof
  assume "sublist w x"
  then have "set w \<subseteq> set x" by (rule set_mono_sublist)
  moreover from assms(1) have "hd w \<in> set w" by simp
  ultimately show False using assms(2) by blast
qed

lemma foreign_fits:
  assumes "w \<noteq> []" and "set x \<inter> set w = {}"
  shows "fits w k x k'"
proof -
  from assms have "\<not> sublist w x" by (rule foreign_free)
  moreover have "hd x \<notin> set w" "last x \<notin> set w" if "x \<noteq> []"
    using that assms(2) hd_in_set [of x] last_in_set [of x] by blast+
  ultimately show ?thesis by (auto simp: fits_def)
qed

lemma digit_char: "k < 10 \<Longrightarrow> ''0123456789'' ! k \<in> set ''0123456789''"
  by (rule nth_mem) simp

lemma show_nat_digits: "set (show_nat n) \<subseteq> set ''0123456789''"
proof -
  define D where "D = set ''0123456789''"
  have digit: "''0123456789'' ! k \<in> D" if "k < 10" for k
    using that unfolding D_def by (rule digit_char)
  have "set (show_nat n) \<subseteq> D"
  proof (induction n rule: show_nat.induct)
    case (1 n)
    show ?case
    proof (cases "n < 10")
      case True
      then have "show_nat n = [''0123456789'' ! n]"
        by (subst show_nat.simps) (simp only: if_True)
      then have "set (show_nat n) = {''0123456789'' ! n}"
        by (simp only: list.set)
      with digit [OF True] show ?thesis
        by (simp only: insert_subset empty_subsetI simp_thms)
    next
      case False
      then have "show_nat n = show_nat (n div 10) @ [''0123456789'' ! (n mod 10)]"
        by (subst show_nat.simps) (simp only: if_False)
      then have "set (show_nat n) = set (show_nat (n div 10)) \<union> {''0123456789'' ! (n mod 10)}"
        by (simp only: set_append list.set)
      moreover have "''0123456789'' ! (n mod 10) \<in> D"
        by (rule digit) simp
      moreover from False 1 have "set (show_nat (n div 10)) \<subseteq> D"
        by blast
      ultimately show ?thesis
        by (simp only: Un_subset_iff insert_subset empty_subsetI simp_thms)
    qed
  qed
  then show ?thesis
    unfolding D_def .
qed

lemma show_num_chars: "set (show_num i) \<subseteq> set ''-0123456789''"
proof -
  define D where "D = set ''0123456789''"
  have full: "set ''-0123456789'' = insert (CHR ''-'') D"
    unfolding D_def by (simp only: list.set)
  have digits: "set (show_nat k) \<subseteq> D" for k
    unfolding D_def by (rule show_nat_digits)
  show ?thesis
  proof (cases "i < 0")
    case True
    then have "set (show_num i) = insert (CHR ''-'') (set (show_nat (nat (- i))))"
      by (simp add: show_num_def)
    with digits [of "nat (- i)"] full show ?thesis
      by (simp only: insert_mono)
  next
    case False
    then have "set (show_num i) = set (show_nat (nat i))"
      by (simp add: show_num_def)
    with digits [of "nat i"] full show ?thesis
      by (simp only: subset_insertI2)
  qed
qed

lemma number_fits:
  assumes "w \<noteq> []" and "set ''-0123456789'' \<inter> set w = {}"
  shows "fits w k (show_num i) k'"
  using assms show_num_chars [of i] by (intro foreign_fits) blast+

lemma join_free:
  assumes w: "w \<noteq> []" and sep: "sep \<noteq> []" "set sep \<inter> set w = {}"
      and fs: "\<forall>f\<in>set fs. \<not> sublist w f"
  shows "\<not> sublist w (join sep fs)"
  using fs
proof (induction fs rule: induct_list012)
  case 1
  with w show ?case by simp
next
  case (2 x)
  then show ?case by simp
next
  case (3 x y zs)
  from sep have ends: "hd sep \<notin> set w" "last sep \<notin> set w"
    using hd_in_set [of sep] last_in_set [of sep] by blast+
  from w sep have s: "\<not> sublist w sep"
    by (intro foreign_free) simp_all
  from 3 have rest: "\<not> sublist w (join sep (y # zs))"
    by simp
  have tail: "\<not> sublist w (sep @ join sep (y # zs))"
    by (rule not_sublist_append [OF s rest]) (use ends in simp)
  from 3 have head: "\<not> sublist w x"
    by simp
  have "\<not> sublist w (x @ sep @ join sep (y # zs))"
    by (rule not_sublist_append [OF head tail]) (use ends sep in simp)
  then show ?case by simp
qed

lemma filterStr_fits:
  assumes w: "w \<noteq> []" and chars: "set ''(, )'' \<inter> set w = {}"
      and fs: "\<forall>f\<in>set fs. \<not> sublist w f"
  shows "fits w k (filterStr fs) k'"
proof (cases "fs = []")
  case True
  with w show ?thesis by (simp add: filterStr_def fits_def)
next
  case False
  from w chars fs have j: "\<not> sublist w (join '', '' fs)"
    by (intro join_free) auto
  have p: "\<not> sublist w '')''" and q: "\<not> sublist w ''(''"
    by (rule foreign_free; use w chars in simp)+
  have tail: "\<not> sublist w (join '', '' fs @ '')'')"
    by (rule not_sublist_append [OF j p]) (use chars in simp)
  have "\<not> sublist w (''('' @ join '', '' fs @ '')'')"
    by (rule not_sublist_append [OF q tail]) (use chars in simp)
  with False chars show ?thesis
    by (simp add: filterStr_def fits_def)
qed

lemma quoted_free:
  assumes "\<not> sublist w k" and "\<not> sublist w u" and "CHR 0x22 \<notin> set w" and "k \<noteq> []"
      and "last k \<notin> set w"
  shows "\<not> sublist w (k @ u @ [CHR 0x22])"
proof -
  from assms(1) have "w \<noteq> []"
    by auto
  with assms(3) have "\<not> sublist w [CHR 0x22]"
    by (intro foreign_free) simp_all
  with assms(2) have "\<not> sublist w (u @ [CHR 0x22])"
    by (rule not_sublist_append) (use assms(3) in simp)
  with assms(1) show ?thesis
    by (rule not_sublist_append) (use assms(4,5) in simp)
qed

lemma bare_free:
  assumes "\<not> sublist w k" and "\<not> sublist w u" and "last k \<notin> set w"
  shows "\<not> sublist w (k @ u)"
  using assms(1,2) by (rule not_sublist_append) (use assms(3) in simp)

lemma bare_clause:
  assumes "truthy_str v" and "absent w v" and "\<not> sublist w k" and "last k \<notin> set w"
  shows "\<not> sublist w (k @ interp_str v)"
  using assms by (intro bare_free) (auto simp add: absent_def interp_str_def truthy_str_def split: option.splits)

lemma quoted_clause:
  assumes "truthy_str v" and "absent w v" and "\<not> sublist w k" and "k \<noteq> []"
      and "last k \<notin> set w" and "CHR 0x22 \<notin> set w"
  shows "\<not> sublist w (k @ interp_str v @ [CHR 0x22])"
  using assms by (intro quoted_free) (auto simp add: absent_def interp_str_def truthy_str_def split: option.splits)

lemma quoted_fits:
  assumes "truthy_str v" and "absent w v" and "last k \<notin> set w" and "hd k' \<notin> set w"
  shows "fits w k (interp_str v) k'"
  using assms by (auto simp add: fits_def absent_def interp_str_def truthy_str_def split: option.splits)

lemma empty_fits: "w \<noteq> [] \<Longrightarrow> fits w k [] k'"
  by (simp add: fits_def)

lemma block_fits: "fits w k b k' \<Longrightarrow> w \<noteq> [] \<Longrightarrow> fits w k (if c then b else []) k'"
  by (simp add: fits_def)

lemma ball_optional:
  assumes "c \<Longrightarrow> P x"
  shows "\<forall>f\<in>set (if c then [x] else []). P f"
  using assms by (cases c) simp_all

lemma ball_append: "\<forall>f\<in>set a. P f \<Longrightarrow> \<forall>f\<in>set b. P f \<Longrightarrow> \<forall>f\<in>set (a @ b). P f"
  by auto

lemma sublist_skip: "sublist w b \<Longrightarrow> sublist w (a @ b)"
  by (metis sublist_append)

subsection \<open>Affected assets\<close>

lemma vulnerabilities_clauses_free:
  assumes "absent ''affectedAssets'' (severity p)"
      and "absent ''affectedAssets'' (vulnerabilities_status p)"
      and "absent ''affectedAssets'' (cve_id p)"
      and "absent ''affectedAssets'' (vulnerabilities_filter p)"
  shows "\<forall>f\<in>set (vulnerabilitiesFilters p). \<not> sublist ''affectedAssets'' f"
proof -
  have a: \<open>\<not> sublist ''affectedAssets'' (''severity: '' @ interp_str (severity p))\<close>
    if "truthy_str (severity p)"
    using that assms(1) by (rule bare_clause) (simp_all add: sublist_code)
  have b: \<open>\<not> sublist ''affectedAssets'' (''status: '' @ interp_str (vulnerabilities_status p))\<close>
    if "truthy_str (vulnerabilities_status p)"
    using that assms(2) by (rule bare_clause) (simp_all add: sublist_code)
  have c: \<open>\<not> sublist ''affectedAssets'' (''cveId: "'' @ interp_str (cve_id p) @ ''"'')\<close>
    if "truthy_str (cve_id p)"
    using that assms(3) by (rule quoted_clause) (simp_all add: sublist_code)
  have d: \<open>\<not> sublist ''affectedAssets'' (''filter: "'' @ interp_str (vulnerabilities_filter p) @ ''"'')\<close>
    if "truthy_str (vulnerabilities_filter p)"
    using that assms(4) by (rule quoted_clause) (simp_all add: sublist_code)
  show ?thesis
    unfolding vulnerabilitiesFilters_def
    by (intro ball_append ball_optional a b c d; assumption)
qed

lemma affected_assets_absent:
  assumes "\<not> truthy_bool (include_affected_assets p)"
      and "absent ''affectedAssets'' (severity p)"
      and "absent ''affectedAssets'' (vulnerabilities_status p)"
      and "absent ''affectedAssets'' (cve_id p)"
      and "absent ''affectedAssets'' (vulnerabilities_filter p)"
  shows "\<not> sublist ''affectedAssets'' (buildVulnerabilitiesQuery p)"
proof -
  have F: "fits ''affectedAssets'' k (filterStr (vulnerabilitiesFilters p)) k'" for k k'
    by (rule filterStr_fits) (use vulnerabilities_clauses_free [OF assms(2-5)] in simp_all)
  have N: "fits ''affectedAssets'' k (show_num n) k'" for k k' n
    by (rule number_fits) simp_all
  have B: "fits ''affectedAssets'' k [] k'" for k k'
    by (rule empty_fits) simp
  from assms(1) have "buildVulnerabilitiesQuery p =
      vulnerabilitiesDocument (filterStr (vulnerabilitiesFilters p))
        (min (or_num (vulnerabilities_limit p) 100) 1000) []"
    by (simp add: buildVulnerabilitiesQuery_def)
  moreover have "\<not> sublist ''affectedAssets'' (vulnerabilitiesDocument (filterStr (vulnerabilitiesFilters p))
        (min (or_num (vulnerabilities_limit p) 100) 1000) [])"
    unfolding vulnerabilitiesDocument_def
    by (rule hole3 [OF _ _ _ _ _ F N B]) (simp_all add: sublist_code)
  ultimately show ?thesis
    by simp
qed

lemma affected_assets_present:
  assumes "truthy_bool (include_affected_assets p)"
  shows "sublist affectedAssetsBlock (buildVulnerabilitiesQuery p)"
  using assms unfolding buildVulnerabilitiesQuery_def Let_def vulnerabilitiesDocument_def
  by (simp only: if_True) (intro sublist_append_rightI sublist_skip)

subsection \<open>Sync history\<close>

lemma connectors_clauses_free:
  assumes "absent ''syncHistory'' (connector_type p)"
      and "absent ''syncHistory'' (connectors_status p)"
  shows "\<forall>f\<in>set (connectorsFilters p). \<not> sublist ''syncHistory'' f"
proof -
  have a: \<open>\<not> sublist ''syncHistory'' (''connectorType: "'' @ interp_str (connector_type p) @ ''"'')\<close>
    if "truthy_str (connector_type p)"
    using that assms(1) by (rule quoted_clause) (simp_all add: sublist_code)
  have b: \<open>\<not> sublist ''syncHistory'' (''status: '' @ interp_str (connectors_status p))\<close>
    if "truthy_str (connectors_status p)"
    using that assms(2) by (rule bare_clause) (simp_all add: sublist_code)
  show ?thesis
    unfolding connectorsFilters_def
    by (intro ball_append ball_optional a b; assumption)
qed

lemma sync_history_absent:
  assumes "\<not> truthy_bool (include_sync_history p)"
      and "absent ''syncHistory'' (connector_type p)"
      and "absent ''syncHistory'' (connectors_status p)"
  shows "\<not> sublist ''syncHistory'' (buildConnectorsQuery p)"
proof -
  have F: "fits ''syncHistory'' k (filterStr (connectorsFilters p)) k'" for k k'
    by (rule filterStr_fits) (use connectors_clauses_free [OF assms(2,3)] in simp_all)
  have B: "fits ''syncHistory'' k [] k'" for k k'
    by (rule empty_fits) simp
  from assms(1) have "buildConnectorsQuery p =
      connectorsDocument (filterStr (connectorsFilters p)) []"
    by (simp add: buildConnectorsQuery_def)
  moreover have "\<not> sublist ''syncHistory'' (connectorsDocument (filterStr (connectorsFilters p)) [])"
    unfolding connectorsDocument_def
    by (rule hole2 [OF _ _ _ _ F B]) (simp_all add: sublist_code)
  ultimately show ?thesis
    by simp
qed

lemma sync_history_present:
  assumes "truthy_bool (include_sync_history p)"
  shows "sublist syncHistoryBlock (buildConnectorsQuery p)"
  using assms unfolding buildConnectorsQuery_def Let_def connectorsDocument_def
  by (simp only: if_True) (intro sublist_append_rightI sublist_skip)

subsection \<open>Risk factors and risk trends\<close>

lemma risk_factors_absent:
  assumes "\<not> truthy_bool (include_factors p)" and "absent ''riskFactors'' (entity_id p)"
  shows "\<not> sublist ''riskFactors'' (buildRiskScoresQuery p)"
proof -
  let ?trends = "if truthy_bool (include_trends p) then riskTrendsBlock else []"
  have B: "fits ''riskFactors'' k [] k'" for k k'
    by (rule empty_fits) simp
  show ?thesis
  proof (cases "scope p = Some ''ASSET'' \<and> truthy_str (entity_id p)")
    case True
    with assms(1) have "buildRiskScoresQuery p =
        assetRiskScoreDocument (interp_str (entity_id p)) [] ?trends"
      by (simp add: buildRiskScoresQuery_def)
    moreover have "\<not> sublist ''riskFactors''
        (assetRiskScoreDocument (interp_str (entity_id p)) [] ?trends)"
      unfolding assetRiskScoreDocument_def
      by (rule hole3 [OF _ _ _ _ _ quoted_fits B block_fits])
         (use True assms(2) in \<open>simp_all add: sublist_code fits_def riskTrendsBlock_def\<close>)
    ultimately show ?thesis
      by simp
  next
    case False
    with assms(1) have "buildRiskScoresQuery p = riskSummaryDocument [] ?trends"
      by (auto simp add: buildRiskScoresQuery_def)
    moreover have "\<not> sublist ''riskFactors'' (riskSummaryDocument [] ?trends)"
      unfolding riskSummaryDocument_def
      by (rule hole2 [OF _ _ _ _ B block_fits])
         (simp_all add: sublist_code fits_def riskTrendsBlock_def)
    ultimately show ?thesis
      by simp
  qed
qed

lemma risk_trends_absent:
  assumes "\<not> truthy_bool (include_trends p)" and "absent ''riskTrends'' (entity_id p)"
  shows "\<not> sublist ''riskTrends'' (buildRiskScoresQuery p)"
proof -
  let ?factors = "if truthy_bool (include_factors p) then riskFactorsBlock else []"
  have B: "fits ''riskTrends'' k [] k'" for k k'
    by (rule empty_fits) simp
  show ?thesis
  proof (cases "scope p = Some ''ASSET'' \<and> truthy_str (entity_id p)")
    case True
    with assms(1) have "buildRiskScoresQuery p =
        assetRiskScoreDocument (interp_str (entity_id p)) ?factors []"
      by (simp add: buildRiskScoresQuery_def)
    moreover have "\<not> sublist ''riskTrends''
        (assetRiskScoreDocument (interp_str (entity_id p)) ?factors [])"
      unfolding assetRiskScoreDocument_def
      by (rule hole3 [OF _ _ _ _ _ quoted_fits block_fits B])
         (use True assms(2) in \<open>simp_all add: sublist_code fits_def riskFactorsBlock_def\<close>)
    ultimately show ?thesis
      by simp
  next
    case False
    with assms(1) have "buildRiskScoresQuery p = riskSummaryDocument ?factors []"
      by (auto simp add: buildRiskScoresQuery_def)
    moreover have "\<not> sublist ''riskTrends'' (riskSummaryDocument ?factors [])"
      unfolding riskSummaryDocument_def
      by (rule hole2 [OF _ _ _ _ block_fits B])
         (simp_all add: sublist_code fits_def riskFactorsBlock_def)
    ultimately show ?thesis
      by simp
  qed
qed

lemma risk_factors_present:
  assumes "truthy_bool (include_factors p)"
  shows "sublist riskFactorsBlock (buildRiskScoresQuery p)"
  using assms
  unfolding buildRiskScoresQuery_def Let_def assetRiskScoreDocument_def riskSummaryDocument_def
  by (simp only: if_True split: if_split) (intro conjI impI sublist_appendI sublist_skip)

lemma risk_trends_present:
  assumes "truthy_bool (include_trends p)"
  shows "sublist riskTrendsBlock (buildRiskScoresQuery p)"
  using assms
  unfolding buildRiskScoresQuery_def Let_def assetRiskScoreDocument_def riskSummaryDocument_def
  by (simp only: if_True split: if_split) (intro conjI impI sublist_appendI sublist_skip)

subsection \<open>Attributes and relationships\<close>

lemma attributes_absent:
  assumes "\<not> truthy_bool (include_attributes p)" and "absent ''attributes'' (model_name p)"
  shows "\<not> sublist ''attributes'' (buildDataModelsQuery p)"
proof -
  let ?rels = "if truthy_bool (include_relationships p) then relationshipsBlock else []"
  have B: "fits ''attributes'' k [] k'" for k k'
    by (rule empty_fits) simp
  show ?thesis
  proof (cases "truthy_str (model_name p)")
    case True
    with assms(1) have "buildDataModelsQuery p =
        dataModelDocument (interp_str (model_name p)) [] ?rels"
      by (simp add: buildDataModelsQuery_def)
    moreover have "\<not> sublist ''attributes''
        (dataModelDocument (interp_str (model_name p)) [] ?rels)"
      unfolding dataModelDocument_def
      by (rule hole3 [OF _ _ _ _ _ quoted_fits B block_fits])
         (use True assms(2) in \<open>simp_all add: sublist_code fits_def relationshipsBlock_def\<close>)
    ultimately show ?thesis
      by simp
  next
    case False
    with assms(1) have "buildDataModelsQuery p = dataModelsDocument [] ?rels"
      by (simp add: buildDataModelsQuery_def)
    moreover have "\<not> sublist ''attributes'' (dataModelsDocument [] ?rels)"
      unfolding dataModelsDocument_def
      by (rule hole2 [OF _ _ _ _ B block_fits])
         (simp_all add: sublist_code fits_def relationshipsBlock_def)
    ultimately show ?thesis
      by simp
  qed
qed

lemma relationships_absent:
  assumes "\<not> truthy_bool (include_relationships p)"
      and "absent ''relationships'' (model_name p)"
  shows "\<not> sublist ''relationships'' (buildDataModelsQuery p)"
proof -
  let ?attrs = "if truthy_bool (include_attributes p) then attributesBlock else []"
  have B: "fits ''relationships'' k [] k'" for k k'
    by (rule empty_fits) simp
  show ?thesis
  proof (cases "truthy_str (model_name p)")
    case True
    with assms(1) have "buildDataModelsQuery p =
        dataModelDocument (interp_str (model_name p)) ?attrs []"
      by (simp add: buildDataModelsQuery_def)
    moreover have "\<not> sublist ''relationships''
        (dataModelDocument (interp_str (model_name p)) ?attrs [])"
      unfolding dataModelDocument_def
      by (rule hole3 [OF _ _ _ _ _ quoted_fits block_fits B])
         (use True assms(2) in \<open>simp_all add: sublist_code fits_def attributesBlock_def\<close>)
    ultimately show ?thesis
      by simp
  next
    case False
    with assms(1) have "buildDataModelsQuery p = dataModelsDocument ?attrs []"
      by (simp add: buildDataModelsQuery_def)
    moreover have "\<not> sublist ''relationships'' (dataModelsDocument ?attrs [])"
      unfolding dataModelsDocument_def
      by (rule hole2 [OF _ _ _ _ block_fits B])
         (simp_all add: sublist_code fits_def attributesBlock_def)
    ultimately show ?thesis
      by simp
  qed
qed

lemma attributes_present:
  assumes "truthy_bool (include_attributes p)"
  shows "sublist attributesBlock (buildDataModelsQuery p)"
  using assms
  unfolding buildDataModelsQuery_def Let_def dataModelDocument_def dataModelsDocument_def
  by (simp only: if_True split: if_split) (intro conjI impI sublist_appendI sublist_skip)

lemma relationships_present:
  assumes "truthy_bool (include_relationships p)"
  shows "sublist relationshipsBlock (buildDataModelsQuery p)"
  using assms
  unfolding buildDataModelsQuery_def Let_def dataModelDocument_def dataModelsDocument_def
  by (simp only: if_True split: if_split) (intro conjI impI sublist_appendI sublist_skip)

subsection \<open>The inclusion flags together\<close>

text \<open>
  C8, as amended. For each of the six inclusion flags: when the flag is true, the
  nested block is part of the generated document; when the flag is unset or false, the
  field name of the block occurs nowhere in the document text, provided that no string
  parameter of the call contains that name itself. Each block begins with its field
  name, so a document without the name is a document without the block.
\<close>

theorem nested_block_inclusion:
  "(truthy_bool (include_affected_assets v) \<longrightarrow>
      sublist affectedAssetsBlock (buildVulnerabilitiesQuery v)) \<and>
   (\<not> truthy_bool (include_affected_assets v) \<and>
    absent ''affectedAssets'' (severity v) \<and>
    absent ''affectedAssets'' (vulnerabilities_status v) \<and>
    absent ''affectedAssets'' (cve_id v) \<and>
    absent ''affectedAssets'' (vulnerabilities_filter v) \<longrightarrow>
      \<not> sublist ''affectedAssets'' (buildVulnerabilitiesQuery v)) \<and>
   (truthy_bool (include_sync_history c) \<longrightarrow>
      sublist syncHistoryBlock (buildConnectorsQuery c)) \<and>
   (\<not> truthy_bool (include_sync_history c) \<and>
    absent ''syncHistory'' (connector_type c) \<and>
    absent ''syncHistory'' (connectors_status c) \<longrightarrow>
      \<not> sublist ''syncHistory'' (buildConnectorsQuery c)) \<and>
   (truthy_bool (include_factors r) \<longrightarrow>
      sublist riskFactorsBlock (buildRiskScoresQuery r)) \<and>
   (\<not> truthy_bool (include_factors r) \<and> absent ''riskFactors'' (entity_id r) \<longrightarrow>
      \<not> sublist ''riskFactors'' (buildRiskScoresQuery r)) \<and>
   (truthy_bool (include_trends r) \<longrightarrow>
      sublist riskTrendsBlock (buildRiskScoresQuery r)) \<and>
   (\<not> truthy_bool (include_trends r) \<and> absent ''riskTrends'' (entity_id r) \<longrightarrow>
      \<not> sublist ''riskTrends'' (buildRiskScoresQuery r)) \<and>
   (truthy_bool (include_attributes d) \<longrightarrow>
      sublist attributesBlock (buildDataModelsQuery d)) \<and>
   (\<not> truthy_bool (include_attributes d) \<and> absent ''attributes'' (model_name d) \<longrightarrow>
      \<not> sublist ''attributes'' (buildDataModelsQuery d)) \<and>
   (truthy_bool (include_relationships d) \<longrightarrow>
      sublist relationshipsBlock (buildDataModelsQuery d)) \<and>
   (\<not> truthy_bool (include_relationships d) \<and> absent ''relationships'' (model_name d) \<longrightarrow>
      \<not> sublist ''relationships'' (buildDataModelsQuery d)) \<and>
   prefix ''affectedAssets'' affectedAssetsBlock \<and>
   prefix ''syncHistory'' syncHistoryBlock \<and>
   prefix ''riskFactors'' riskFactorsBlock \<and>
   prefix ''riskTrends'' riskTrendsBlock \<and>
   prefix ''attributes'' attributesBlock \<and>
   prefix ''relationships'' relationshipsBlock"
proof -
  have "prefix ''affectedAssets'' affectedAssetsBlock"
    "prefix ''syncHistory'' syncHistoryBlock"
    "prefix ''riskFactors'' riskFactorsBlock"
    "prefix ''riskTrends'' riskTrendsBlock"
    "prefix ''attributes'' attributesBlock"
    "prefix ''relationships'' relationshipsBlock"
    by (simp_all add: affectedAssetsBlock_def syncHistoryBlock_def riskFactorsBlock_def
          riskTrendsBlock_def attributesBlock_def relationshipsBlock_def)
  then show ?thesis
    using affected_assets_present [of v] affected_assets_absent [of v]
      sync_history_present [of c] sync_history_absent [of c]
      risk_factors_present [of r] risk_factors_absent [of r]
      risk_trends_present [of r] risk_trends_absent [of r]
      attributes_present [of d] attributes_absent [of d]
      relationships_present [of d] relationships_absent [of d]
    by blast
qed

text \<open>
  With every flag set the six blocks are in the documents; with no flag set, for a
  vulnerability query on severity \<open>CRITICAL\<close>, a connector query on type \<open>Qualys\<close>, a
  risk query on asset \<open>host-1\<close> and a data-model query on model \<open>Host\<close>, none of the six
  field names is.
\<close>

theorem nested_block_inclusion_witness:
  "sublist affectedAssetsBlock
     (buildVulnerabilitiesQuery
        (no_vulnerabilities_params\<lparr>severity := Some ''CRITICAL'', include_affected_assets := Some True\<rparr>)) \<and>
   sublist syncHistoryBlock
     (buildConnectorsQuery (no_connectors_params\<lparr>include_sync_history := Some True\<rparr>)) \<and>
   sublist riskFactorsBlock
     (buildRiskScoresQuery
        (no_risk_scores_params\<lparr>include_factors := Some True, include_trends := Some True\<rparr>)) \<and>
   sublist riskTrendsBlock
     (buildRiskScoresQuery
        (no_risk_scores_params\<lparr>include_factors := Some True, include_trends := Some True\<rparr>)) \<and>
   sublist attributesBlock
     (buildDataModelsQuery
        (no_data_models_params\<lparr>include_attributes := Some True, include_relationships := Some True\<rparr>)) \<and>
   sublist relationshipsBlock
     (buildDataModelsQuery
        (no_data_models_params\<lparr>include_attributes := Some True, include_relationships := Some True\<rparr>)) \<and>
   \<not> sublist ''affectedAssets''
     (buildVulnerabilitiesQuery (no_vulnerabilities_params\<lparr>severity := Some ''CRITICAL''\<rparr>)) \<and>
   \<not> sublist ''syncHistory''
     (buildConnectorsQuery (no_connectors_params\<lparr>connector_type := Some ''Qualys''\<rparr>)) \<and>
   \<not> sublist ''riskFactors''
     (buildRiskScoresQuery
        (no_risk_scores_params\<lparr>scope := Some ''ASSET'', entity_id := Some ''host-1''\<rparr>)) \<and>
   \<not> sublist ''riskTrends''
     (buildRiskScoresQuery
        (no_risk_scores_params\<lparr>scope := Some ''ASSET'', entity_id := Some ''host-1''\<rparr>)) \<and>
   \<not> sublist ''attributes''
     (buildDataModelsQuery (no_data_models_params\<lparr>model_name := Some ''Host''\<rparr>)) \<and>
   \<not> sublist ''relationships''
     (buildDataModelsQuery (no_data_models_params\<lparr>model_name := Some ''Host''\<rparr>))"
  using
    nested_block_inclusion
      [of "no_vulnerabilities_params\<lparr>severity := Some ''CRITICAL'', include_affected_assets := Some True\<rparr>"
          "no_connectors_params\<lparr>include_sync_history := Some True\<rparr>"
          "no_risk_scores_params\<lparr>include_factors := Some True, include_trends := Some True\<rparr>"
          "no_data_models_params\<lparr>include_attributes := Some True, include_relationships := Some True\<rparr>"]
    nested_block_inclusion
      [of "no_vulnerabilities_params\<lparr>severity := Some ''CRITICAL''\<rparr>"
          "no_connectors_params\<lparr>connector_type := Some ''Qualys''\<rparr>"
          "no_risk_scores_params\<lparr>scope := Some ''ASSET'', entity_id := Some ''host-1''\<rparr>"
          "no_data_models_params\<lparr>model_name := Some ''Host''\<rparr>"]
  by (simp add: no_vulnerabilities_params_def no_connectors_params_def
        no_risk_scores_params_def no_data_models_params_def truthy_bool_def absent_def
        sublist_code)

text \<open>
  C8 as stated fails for a flag that is unset while a string parameter holds the field
  name: a vulnerability filter on \<open>affectedAssets\<close> puts the name into the document.
\<close>

theorem field_name_in_filter_counterexample:
  "include_affected_assets
     (no_vulnerabilities_params\<lparr>vulnerabilities_filter := Some ''affectedAssets > 0''\<rparr>) = None \<and>
   sublist ''affectedAssets''
     (buildVulnerabilitiesQuery
        (no_vulnerabilities_params\<lparr>vulnerabilities_filter := Some ''affectedAssets > 0''\<rparr>))"
  by code_simp

subsection \<open>The only occurrence of a word\<close>

lemma prefix_of_shifted:
  assumes "us \<noteq> []" and "us @ w @ b = w @ ss"
  shows "prefix w (us @ butlast w)"
proof (cases "w = []")
  case True
  then show ?thesis by simp
next
  case False
  then have split: "us @ w @ b = (us @ butlast w) @ (last w # b)"
    by simp
  from assms(1) False have len: "length w \<le> length (us @ butlast w)"
    by (cases us) simp_all
  from assms(2) have "w = take (length w) (us @ w @ b)"
    by simp
  also have "\<dots> = take (length w) (us @ butlast w)"
    unfolding split using len by simp
  finally have "w = take (length w) (us @ butlast w)" .
  then show ?thesis
    by (metis take_is_prefix)
qed

lemma only_occurrence:
  assumes before: "\<not> sublist w (a @ butlast w)" and after: "\<not> sublist w (tl w @ b)"
      and eq: "a @ w @ b = ps @ w @ ss"
  shows "ss = b"
proof -
  from eq obtain us
    where "(a = ps @ us \<and> us @ w @ b = w @ ss) \<or> (a @ us = ps \<and> w @ b = us @ w @ ss)"
    unfolding append_eq_append_conv2 [of a "w @ b" ps "w @ ss"] by blast
  then show ?thesis
  proof
    assume l: "a = ps @ us \<and> us @ w @ b = w @ ss"
    show ?thesis
    proof (cases "us = []")
      case True
      with l show ?thesis by simp
    next
      case False
      with l have "prefix w (us @ butlast w)"
        by (intro prefix_of_shifted) auto
      then have "sublist w (ps @ us @ butlast w)"
        by (intro sublist_skip prefix_imp_sublist)
      with l before show ?thesis
        by simp
    qed
  next
    assume r: "a @ us = ps \<and> w @ b = us @ w @ ss"
    show ?thesis
    proof (cases "us = []")
      case True
      with r show ?thesis by simp
    next
      case False
      from before have "w \<noteq> []"
        by auto
      with r have "tl w @ b = tl (us @ w @ ss)"
        by (metis tl_append2)
      also from False have "\<dots> = tl us @ w @ ss"
        by simp
      finally have "sublist w (tl w @ b)"
        by simp
      with after show ?thesis
        by simp
    qed
  qed
qed

subsection \<open>Clauses in the text of a document\<close>

lemma number_clause:
  assumes "v \<noteq> None" and "w \<noteq> []" and "set ''-0123456789'' \<inter> set w = {}"
      and "\<not> sublist w k" and "last k \<notin> set w"
  shows "\<not> sublist w (k @ interp_num v)"
proof -
  from assms(1) obtain n where "interp_num v = show_num n"
    by (auto simp add: interp_num_def)
  moreover from assms(2,3) show_num_chars [of n] have "\<not> sublist w (show_num n)"
    by (intro foreign_free) blast+
  ultimately show ?thesis
    using assms(4,5) by (simp add: bare_free)
qed

lemma dated_clause:
  assumes "truthy_num v" and "w \<noteq> []" and "set ''-0123456789'' \<inter> set w = {}"
      and "\<not> sublist w (k @ s)" and "k \<noteq> []" and "s \<noteq> []"
  shows "\<not> sublist w (k @ interp_num v @ s)"
proof -
  from assms(1) obtain n where n: "interp_num v = show_num n"
    by (auto simp add: interp_num_def truthy_num_def split: option.splits)
  from assms(2,3) have "fits w k (show_num n) s"
    by (rule number_fits)
  with assms(4,5,6) have "\<not> sublist w (k @ show_num n @ s)"
    by (rule insert_free)
  with n show ?thesis
    by simp
qed

lemma selection_fits:
  assumes fields: "absent_all w (assets_fields p)" and default: "\<not> sublist w defaultAssetFields"
      and chars: "CHR 0x0A \<notin> set w" "CHR '' '' \<notin> set w"
      and seams: "last k \<notin> set w" "hd k' \<notin> set w"
  shows "fits w k (assetsFieldSelection p) k'"
proof -
  from default have w: "w \<noteq> []"
    by auto
  have "\<not> sublist w (assetsFieldSelection p)"
  proof (cases "assets_fields p")
    case None
    with default show ?thesis
      by (simp add: assetsFieldSelection_def or_str_def)
  next
    case (Some xs)
    with fields have "\<forall>x\<in>set xs. \<not> sublist w x"
      by (simp add: absent_all_def list_all_iff)
    with w chars have \<open>\<not> sublist w (join ''
        '' xs)\<close>
      by (intro join_free) simp_all
    with Some default show ?thesis
      by (simp add: assetsFieldSelection_def or_str_def)
  qed
  with seams show ?thesis
    by (simp add: fits_def)
qed

section \<open>The limit in the text of a document\<close>

text \<open>
  The word \<open>first:\<close> stands once in each template, before the hole of the limit.
  When no string parameter of the call contains it, this is its only occurrence in the
  document, so whatever follows an occurrence of \<open>first:\<close> is the limit that the
  builder computed.
\<close>

lemma assets_first_only:
  assumes s1: "absent ''first:'' (asset_type p)"
      and s2: "absent ''first:'' (assets_status p)"
      and s3: "absent ''first:'' (assets_filter p)"
      and s4: "absent_all ''first:'' (assets_fields p)"
      and occurs: "buildAssetsQuery p = ps @ ''first:'' @ ss"
  shows "prefix ('' '' @ show_num (case assets_limit p of None \<Rightarrow> 100 | Some n \<Rightarrow> if n = 0 then 100 else min n 1000) @ '')'') ss"
proof -
  let ?K1 = \<open>''
    query GetAssets {
      assets''\<close>
  let ?K2 = \<open>'' {
        totalCount
        pageInfo {
          hasNextPage
          endCursor
        }
        nodes(''\<close>
  let ?K3 = \<open>'') {
          ''\<close>
  let ?K4 = \<open>''
        }
      }
    }
  ''\<close>
  let ?H = "assetsFieldSelection p"
  let ?F = "filterStr (assetsFilters p)"
  let ?N = "show_num (case assets_limit p of None \<Rightarrow> 100 | Some n \<Rightarrow> if n = 0 then 100 else min n 1000)"
  have c1: \<open>\<not> sublist ''first:'' (''assetType: "'' @ interp_str (asset_type p) @ ''"'')\<close>
    if "truthy_str (asset_type p)"
    using that s1 by (rule quoted_clause) (simp_all add: sublist_code)
  have c2: \<open>\<not> sublist ''first:'' (''status: '' @ interp_str (assets_status p))\<close>
    if "truthy_str (assets_status p)"
    using that s2 by (rule bare_clause) (simp_all add: sublist_code)
  have c3: \<open>\<not> sublist ''first:'' (''filter: "'' @ interp_str (assets_filter p) @ ''"'')\<close>
    if "truthy_str (assets_filter p)"
    using that s3 by (rule quoted_clause) (simp_all add: sublist_code)
  have clauses: "\<forall>x\<in>set (assetsFilters p). \<not> sublist ''first:'' x"
    unfolding assetsFilters_def
    by (intro ball_append ball_optional c1 c2 c3; assumption)
  have F: "fits ''first:'' k ?F k'" for k k'
    by (rule filterStr_fits) (use clauses in simp_all)
  have N: "fits ''first:'' k ?N k'" for k k'
    by (rule number_fits) simp_all
  have S: "fits ''first:'' k (assetsFieldSelection p) k'"
    if "last k \<notin> set ''first:''" and "hd k' \<notin> set ''first:''" for k k'
    by (rule selection_fits [OF s4 _ _ _ that])
       (simp_all add: sublist_code defaultAssetFields_def)
  have document: "buildAssetsQuery p = (?K1 @ ?F @ ?K2) @ ''first:'' @ ('' '' @ ?N @ ?K3 @ ?H @ ?K4)"
    by (subst assets_limit_slot) (simp add: assetsDocument_def)
  have "\<not> sublist ''first:'' (?K1 @ ?F @ (?K2 @ ''first''))"
    by (rule hole1 [OF _ _ _ F]) (simp_all add: sublist_code)
  then have before: "\<not> sublist ''first:'' ((?K1 @ ?F @ ?K2) @ butlast ''first:'')"
    by simp
  have "\<not> sublist ''first:'' (''irst: '' @ ?N @ ?K3 @ ?H @ ?K4)"
    by (rule hole2 [OF _ _ _ _ N S]) (simp_all add: sublist_code)
  then have after: "\<not> sublist ''first:'' (tl ''first:'' @ ('' '' @ ?N @ ?K3 @ ?H @ ?K4))"
    by simp
  from document [symmetric] occurs
  have "(?K1 @ ?F @ ?K2) @ ''first:'' @ ('' '' @ ?N @ ?K3 @ ?H @ ?K4) = ps @ ''first:'' @ ss"
    by (rule trans)
  with before after have "ss = '' '' @ ?N @ ?K3 @ ?H @ ?K4"
    by (rule only_occurrence)
  then show ?thesis
    by simp
qed

lemma vulnerabilities_first_only:
  assumes s1: "absent ''first:'' (severity p)"
      and s2: "absent ''first:'' (vulnerabilities_status p)"
      and s3: "absent ''first:'' (cve_id p)"
      and s4: "absent ''first:'' (vulnerabilities_filter p)"
      and occurs: "buildVulnerabilitiesQuery p = ps @ ''first:'' @ ss"
  shows "prefix ('' '' @ show_num (case vulnerabilities_limit p of None \<Rightarrow> 100 | Some n \<Rightarrow> if n = 0 then 100 else min n 1000) @ '')'') ss"
proof -
  let ?K1 = \<open>''
    query GetVulnerabilities {
      vulnerabilities''\<close>
  let ?K2 = \<open>'' {
        totalCount
        pageInfo {
          hasNextPage
          endCursor
        }
        nodes(''\<close>
  let ?K3 = \<open>'') {
          id
          cveId
          title
          description
          severity
          cvssScore
          cvssVector
          status
          riskScore
          exploitAvailable
          exploitMaturity
          patchAvailable
          publishedDate
          lastModifiedDate
          firstDiscoveredDate
          affectedAssetCount
          ''\<close>
  let ?K4 = \<open>''
          references
          remediation
        }
      }
    }
  ''\<close>
  let ?H = "if truthy_bool (include_affected_assets p) then affectedAssetsBlock else ''''"
  let ?F = "filterStr (vulnerabilitiesFilters p)"
  let ?N = "show_num (case vulnerabilities_limit p of None \<Rightarrow> 100 | Some n \<Rightarrow> if n = 0 then 100 else min n 1000)"
  have c1: \<open>\<not> sublist ''first:'' (''severity: '' @ interp_str (severity p))\<close>
    if "truthy_str (severity p)"
    using that s1 by (rule bare_clause) (simp_all add: sublist_code)
  have c2: \<open>\<not> sublist ''first:'' (''status: '' @ interp_str (vulnerabilities_status p))\<close>
    if "truthy_str (vulnerabilities_status p)"
    using that s2 by (rule bare_clause) (simp_all add: sublist_code)
  have c3: \<open>\<not> sublist ''first:'' (''cveId: "'' @ interp_str (cve_id p) @ ''"'')\<close>
    if "truthy_str (cve_id p)"
    using that s3 by (rule quoted_clause) (simp_all add: sublist_code)
  have c4: \<open>\<not> sublist ''first:'' (''filter: "'' @ interp_str (vulnerabilities_filter p) @ ''"'')\<close>
    if "truthy_str (vulnerabilities_filter p)"
    using that s4 by (rule quoted_clause) (simp_all add: sublist_code)
  have clauses: "\<forall>x\<in>set (vulnerabilitiesFilters p). \<not> sublist ''first:'' x"
    unfolding vulnerabilitiesFilters_def
    by (intro ball_append ball_optional c1 c2 c3 c4; assumption)
  have F: "fits ''first:'' k ?F k'" for k k'
    by (rule filterStr_fits) (use clauses in simp_all)
  have N: "fits ''first:'' k ?N k'" for k k'
    by (rule number_fits) simp_all
  have document: "buildVulnerabilitiesQuery p = (?K1 @ ?F @ ?K2) @ ''first:'' @ ('' '' @ ?N @ ?K3 @ ?H @ ?K4)"
    by (subst vulnerabilities_limit_slot) (simp add: vulnerabilitiesDocument_def)
  have "\<not> sublist ''first:'' (?K1 @ ?F @ (?K2 @ ''first''))"
    by (rule hole1 [OF _ _ _ F]) (simp_all add: sublist_code)
  then have before: "\<not> sublist ''first:'' ((?K1 @ ?F @ ?K2) @ butlast ''first:'')"
    by simp
  have "\<not> sublist ''first:'' (''irst: '' @ ?N @ ?K3 @ ?H @ ?K4)"
    by (rule hole2 [OF _ _ _ _ N block_fits]) (simp_all add: sublist_code fits_def affectedAssetsBlock_def)
  then have after: "\<not> sublist ''first:'' (tl ''first:'' @ ('' '' @ ?N @ ?K3 @ ?H @ ?K4))"
    by simp
  from document [symmetric] occurs
  have "(?K1 @ ?F @ ?K2) @ ''first:'' @ ('' '' @ ?N @ ?K3 @ ?H @ ?K4) = ps @ ''first:'' @ ss"
    by (rule trans)
  with before after have "ss = '' '' @ ?N @ ?K3 @ ?H @ ?K4"
    by (rule only_occurrence)
  then show ?thesis
    by simp
qed

lemma findings_first_only:
  assumes s1: "absent ''first:'' (finding_type p)"
      and s2: "absent ''first:'' (findings_status p)"
      and occurs: "buildFindingsQuery p = ps @ ''first:'' @ ss"
  shows "prefix ('' '' @ show_num (case findings_limit p of None \<Rightarrow> 100 | Some n \<Rightarrow> if n = 0 then 100 else min n 1000) @ '')'') ss"
proof -
  let ?K1 = \<open>''
    query GetFindings {
      findings''\<close>
  let ?K2 = \<open>'' {
        totalCount
        pageInfo {
          hasNextPage
          endCursor
        }
        nodes(''\<close>
  let ?K3 = \<open>'') {
          id
          findingType
          title
          description
          status
          severity
          riskScore
          baseRiskScore
          overallRiskScore
          discoveredAt
          lastSeenAt
          resolvedAt
          asset {
            id
            name
            assetType
          }
          vulnerability {
            id
            cveId
            title
          }
          assignee
          dueDate
          slaStatus
        }
      }
    }
  ''\<close>
  let ?F = "filterStr (findingsFilters p)"
  let ?N = "show_num (case findings_limit p of None \<Rightarrow> 100 | Some n \<Rightarrow> if n = 0 then 100 else min n 1000)"
  have c1: \<open>\<not> sublist ''first:'' (''findingType: "'' @ interp_str (finding_type p) @ ''"'')\<close>
    if "truthy_str (finding_type p)"
    using that s1 by (rule quoted_clause) (simp_all add: sublist_code)
  have c2: \<open>\<not> sublist ''first:'' (''status: '' @ interp_str (findings_status p))\<close>
    if "truthy_str (findings_status p)"
    using that s2 by (rule bare_clause) (simp_all add: sublist_code)
  have c3: \<open>\<not> sublist ''first:'' (''riskScoreMin: '' @ interp_num (risk_score_min p))\<close>
    if "risk_score_min p \<noteq> None"
    using that by (rule number_clause) (simp_all add: sublist_code)
  have c4: \<open>\<not> sublist ''first:'' (''riskScoreMax: '' @ interp_num (risk_score_max p))\<close>
    if "risk_score_max p \<noteq> None"
    using that by (rule number_clause) (simp_all add: sublist_code)
  have c5: \<open>\<not> sublist ''first:'' (''discoveredAfter: "-'' @ interp_num (age_days p) @ ''d"'')\<close>
    if "truthy_num (age_days p)"
    using that by (rule dated_clause) (simp_all add: sublist_code)
  have clauses: "\<forall>x\<in>set (findingsFilters p). \<not> sublist ''first:'' x"
    unfolding findingsFilters_def
    by (intro ball_append ball_optional c1 c2 c3 c4 c5; assumption)
  have F: "fits ''first:'' k ?F k'" for k k'
    by (rule filterStr_fits) (use clauses in simp_all)
  have N: "fits ''first:'' k ?N k'" for k k'
    by (rule number_fits) simp_all
  have document: "buildFindingsQuery p = (?K1 @ ?F @ ?K2) @ ''first:'' @ ('' '' @ ?N @ ?K3)"
    by (subst findings_limit_slot) (simp add: findingsDocument_def)
  have "\<not> sublist ''first:'' (?K1 @ ?F @ (?K2 @ ''first''))"
    by (rule hole1 [OF _ _ _ F]) (simp_all add: sublist_code)
  then have before: "\<not> sublist ''first:'' ((?K1 @ ?F @ ?K2) @ butlast ''first:'')"
    by simp
  have "\<not> sublist ''first:'' (''irst: '' @ ?N @ ?K3)"
    by (rule hole1 [OF _ _ _ N]) (simp_all add: sublist_code)
  then have after: "\<not> sublist ''first:'' (tl ''first:'' @ ('' '' @ ?N @ ?K3))"
    by simp
  from document [symmetric] occurs
  have "(?K1 @ ?F @ ?K2) @ ''first:'' @ ('' '' @ ?N @ ?K3) = ps @ ''first:'' @ ss"
    by (rule trans)
  with before after have "ss = '' '' @ ?N @ ?K3"
    by (rule only_occurrence)
  then show ?thesis
    by simp
qed

lemma tickets_first_only:
  assumes s1: "absent ''first:'' (tickets_status p)"
      and s2: "absent ''first:'' (priority p)"
      and s3: "absent ''first:'' (assignee p)"
      and s4: "absent ''first:'' (sla_status p)"
      and occurs: "buildTicketsQuery p = ps @ ''first:'' @ ss"
  shows "prefix ('' '' @ show_num (case tickets_limit p of None \<Rightarrow> 100 | Some n \<Rightarrow> if n = 0 then 100 else min n 1000) @ '')'') ss"
proof -
  let ?K1 = \<open>''
    query GetTickets {
      tickets''\<close>
  let ?K2 = \<open>'' {
        totalCount
        pageInfo {
          hasNextPage
          endCursor
        }
        nodes(''\<close>
  let ?K3 = \<open>'') {
          id
          ticketId
          title
          description
          status
          priority
          severity
          assignee
          reporter
          createdAt
          updatedAt
          dueDate
          slaStatus
          slaDueDate
          findingsCount
          affectedAssetsCount
          externalTicketId
          externalTicketUrl
        }
      }
    }
  ''\<close>
  let ?F = "filterStr (ticketsFilters p)"
  let ?N = "show_num (case tickets_limit p of None \<Rightarrow> 100 | Some n \<Rightarrow> if n = 0 then 100 else min n 1000)"
  have c1: \<open>\<not> sublist ''first:'' (''status: '' @ interp_str (tickets_status p))\<close>
    if "truthy_str (tickets_status p)"
    using that s1 by (rule bare_clause) (simp_all add: sublist_code)
  have c2: \<open>\<not> sublist ''first:'' (''priority: '' @ interp_str (priority p))\<close>
    if "truthy_str (priority p)"
    using that s2 by (rule bare_clause) (simp_all add: sublist_code)
  have c3: \<open>\<not> sublist ''first:'' (''assignee: "'' @ interp_str (assignee p) @ ''"'')\<close>
    if "truthy_str (assignee p)"
    using that s3 by (rule quoted_clause) (simp_all add: sublist_code)
  have c4: \<open>\<not> sublist ''first:'' (''slaStatus: '' @ interp_str (sla_status p))\<close>
    if "truthy_str (sla_status p)"
    using that s4 by (rule bare_clause) (simp_all add: sublist_code)
  have clauses: "\<forall>x\<in>set (ticketsFilters p). \<not> sublist ''first:'' x"
    unfolding ticketsFilters_def
    by (intro ball_append ball_optional c1 c2 c3 c4; assumption)
  have F: "fits ''first:'' k ?F k'" for k k'
    by (rule filterStr_fits) (use clauses in simp_all)
  have N: "fits ''first:'' k ?N k'" for k k'
    by (rule number_fits) simp_all
  have document: "buildTicketsQuery p = (?K1 @ ?F @ ?K2) @ ''first:'' @ ('' '' @ ?N @ ?K3)"
    by (subst tickets_limit_slot) (simp add: ticketsDocument_def)
  have "\<not> sublist ''first:'' (?K1 @ ?F @ (?K2 @ ''first''))"
    by (rule hole1 [OF _ _ _ F]) (simp_all add: sublist_code)
  then have before: "\<not> sublist ''first:'' ((?K1 @ ?F @ ?K2) @ butlast ''first:'')"
    by simp
  have "\<not> sublist ''first:'' (''irst: '' @ ?N @ ?K3)"
    by (rule hole1 [OF _ _ _ N]) (simp_all add: sublist_code)
  then have after: "\<not> sublist ''first:'' (tl ''first:'' @ ('' '' @ ?N @ ?K3))"
    by simp
  from document [symmetric] occurs
  have "(?K1 @ ?F @ ?K2) @ ''first:'' @ ('' '' @ ?N @ ?K3) = ps @ ''first:'' @ ss"
    by (rule trans)
  with before after have "ss = '' '' @ ?N @ ?K3"
    by (rule only_occurrence)
  then show ?thesis
    by simp
qed

lemma clusters_first_only:
  assumes s1: "absent ''first:'' (cluster_type p)"
      and occurs: "buildClustersQuery p = ps @ ''first:'' @ ss"
  shows "prefix ('' '' @ show_num (case clusters_limit p of None \<Rightarrow> 50 | Some n \<Rightarrow> if n = 0 then 50 else min n 500) @ '')'') ss"
proof -
  let ?K1 = \<open>''
    query GetClusters {
      clusters''\<close>
  let ?K2 = \<open>'' {
        nodes(''\<close>
  let ?K3 = \<open>'') {
          id
          name
          clusterType
          description
          entityCount
          riskScore
          criteria {
            attribute
            operator
            value
          }
          createdAt
          updatedAt
        }
      }
    }
  ''\<close>
  let ?F = "filterStr (clustersFilters p)"
  let ?N = "show_num (case clusters_limit p of None \<Rightarrow> 50 | Some n \<Rightarrow> if n = 0 then 50 else min n 500)"
  have c1: \<open>\<not> sublist ''first:'' (''clusterType: "'' @ interp_str (cluster_type p) @ ''"'')\<close>
    if "truthy_str (cluster_type p)"
    using that s1 by (rule quoted_clause) (simp_all add: sublist_code)
  have clauses: "\<forall>x\<in>set (clustersFilters p). \<not> sublist ''first:'' x"
    unfolding clustersFilters_def
    by (intro ball_append ball_optional c1; assumption)
  have F: "fits ''first:'' k ?F k'" for k k'
    by (rule filterStr_fits) (use clauses in simp_all)
  have N: "fits ''first:'' k ?N k'" for k k'
    by (rule number_fits) simp_all
  have document: "buildClustersQuery p = (?K1 @ ?F @ ?K2) @ ''first:'' @ ('' '' @ ?N @ ?K3)"
    by (subst clusters_limit_slot) (simp add: clustersDocument_def)
  have "\<not> sublist ''first:'' (?K1 @ ?F @ (?K2 @ ''first''))"
    by (rule hole1 [OF _ _ _ F]) (simp_all add: sublist_code)
  then have before: "\<not> sublist ''first:'' ((?K1 @ ?F @ ?K2) @ butlast ''first:'')"
    by simp
  have "\<not> sublist ''first:'' (''irst: '' @ ?N @ ?K3)"
    by (rule hole1 [OF _ _ _ N]) (simp_all add: sublist_code)
  then have after: "\<not> sublist ''first:'' (tl ''first:'' @ ('' '' @ ?N @ ?K3))"
    by simp
  from document [symmetric] occurs
  have "(?K1 @ ?F @ ?K2) @ ''first:'' @ ('' '' @ ?N @ ?K3) = ps @ ''first:'' @ ss"
    by (rule trans)
  with before after have "ss = '' '' @ ?N @ ?K3"
    by (rule only_occurrence)
  then show ?thesis
    by simp
qed

text \<open>
  C5, as amended. The limit that the generated document carries in
  \<open>nodes(first: ...)\<close> is the default when the limit is unset or is 0, and the smaller
  of the supplied limit and the ceiling when a non-zero limit is supplied; default and
  ceiling are 100 and 1000 for assets, vulnerabilities, findings and tickets, and 50 and
  500 for clusters. For each builder this is stated of the hole of its template, and of
  the text of the document: the text contains \<open>nodes(first: L)\<close> for that limit \<open>L\<close>,
  and, provided that no string parameter of the call contains \<open>first:\<close> itself,
  \<open>first:\<close> occurs nowhere else in it. So a supplied limit above the ceiling does not
  appear as a \<open>first:\<close> argument of the document; the ceiling does.
\<close>

theorem limit_is_clamped:
  \<open>buildAssetsQuery a =
     assetsDocument (filterStr (assetsFilters a))
       (case assets_limit a of None \<Rightarrow> 100 | Some n \<Rightarrow> if n = 0 then 100 else min n 1000)
       (assetsFieldSelection a) \<and>
   sublist
     (''nodes(first: '' @
      show_num (case assets_limit a of None \<Rightarrow> 100 | Some n \<Rightarrow> if n = 0 then 100 else min n 1000) @ '')'')
     (buildAssetsQuery a) \<and>
   (absent ''first:'' (asset_type a) \<and>
    absent ''first:'' (assets_status a) \<and>
    absent ''first:'' (assets_filter a) \<and>
    absent_all ''first:'' (assets_fields a) \<longrightarrow>
      (\<forall>ps ss. buildAssetsQuery a = ps @ ''first:'' @ ss \<longrightarrow>
         prefix ('' '' @ show_num (case assets_limit a of None \<Rightarrow> 100 | Some n \<Rightarrow> if n = 0 then 100 else min n 1000) @ '')'') ss)) \<and>
   buildVulnerabilitiesQuery v =
     vulnerabilitiesDocument (filterStr (vulnerabilitiesFilters v))
       (case vulnerabilities_limit v of None \<Rightarrow> 100 | Some n \<Rightarrow> if n = 0 then 100 else min n 1000)
       (if truthy_bool (include_affected_assets v) then affectedAssetsBlock else '''') \<and>
   sublist
     (''nodes(first: '' @
      show_num (case vulnerabilities_limit v of None \<Rightarrow> 100 | Some n \<Rightarrow> if n = 0 then 100 else min n 1000) @ '')'')
     (buildVulnerabilitiesQuery v) \<and>
   (absent ''first:'' (severity v) \<and>
    absent ''first:'' (vulnerabilities_status v) \<and>
    absent ''first:'' (cve_id v) \<and>
    absent ''first:'' (vulnerabilities_filter v) \<longrightarrow>
      (\<forall>ps ss. buildVulnerabilitiesQuery v = ps @ ''first:'' @ ss \<longrightarrow>
         prefix ('' '' @ show_num (case vulnerabilities_limit v of None \<Rightarrow> 100 | Some n \<Rightarrow> if n = 0 then 100 else min n 1000) @ '')'') ss)) \<and>
   buildFindingsQuery f =
     findingsDocument (filterStr (findingsFilters f))
       (case findings_limit f of None \<Rightarrow> 100 | Some n \<Rightarrow> if n = 0 then 100 else min n 1000) \<and>
   sublist
     (''nodes(first: '' @
      show_num (case findings_limit f of None \<Rightarrow> 100 | Some n \<Rightarrow> if n = 0 then 100 else min n 1000) @ '')'')
     (buildFindingsQuery f) \<and>
   (absent ''first:'' (finding_type f) \<and>
    absent ''first:'' (findings_status f) \<longrightarrow>
      (\<forall>ps ss. buildFindingsQuery f = ps @ ''first:'' @ ss \<longrightarrow>
         prefix ('' '' @ show_num (case findings_limit f of None \<Rightarrow> 100 | Some n \<Rightarrow> if n = 0 then 100 else min n 1000) @ '')'') ss)) \<and>
   buildTicketsQuery t =
     ticketsDocument (filterStr (ticketsFilters t))
       (case tickets_limit t of None \<Rightarrow> 100 | Some n \<Rightarrow> if n = 0 then 100 else min n 1000) \<and>
   sublist
     (''nodes(first: '' @
      show_num (case tickets_limit t of None \<Rightarrow> 100 | Some n \<Rightarrow> if n = 0 then 100 else min n 1000) @ '')'')
     (buildTicketsQuery t) \<and>
   (absent ''first:'' (tickets_status t) \<and>
    absent ''first:'' (priority t) \<and>
    absent ''first:'' (assignee t) \<and>
    absent ''first:'' (sla_status t) \<longrightarrow>
      (\<forall>ps ss. buildTicketsQuery t = ps @ ''first:'' @ ss \<longrightarrow>
         prefix ('' '' @ show_num (case tickets_limit t of None \<Rightarrow> 100 | Some n \<Rightarrow> if n = 0 then 100 else min n 1000) @ '')'') ss)) \<and>
   buildClustersQuery c =
     clustersDocument (filterStr (clustersFilters c))
       (case clusters_limit c of None \<Rightarrow> 50 | Some n \<Rightarrow> if n = 0 then 50 else min n 500) \<and>
   sublist
     (''nodes(first: '' @
      show_num (case clusters_limit c of None \<Rightarrow> 50 | Some n \<Rightarrow> if n = 0 then 50 else min n 500) @ '')'')
     (buildClustersQuery c) \<and>
   (absent ''first:'' (cluster_type c) \<longrightarrow>
      (\<forall>ps ss. buildClustersQuery c = ps @ ''first:'' @ ss \<longrightarrow>
         prefix ('' '' @ show_num (case clusters_limit c of None \<Rightarrow> 50 | Some n \<Rightarrow> if n = 0 then 50 else min n 500) @ '')'') ss))\<close>
proof -
  have carried:
    \<open>sublist
     (''nodes(first: '' @
      show_num (case assets_limit a of None \<Rightarrow> 100 | Some n \<Rightarrow> if n = 0 then 100 else min n 1000) @ '')'')
     (buildAssetsQuery a)\<close>
    \<open>sublist
     (''nodes(first: '' @
      show_num (case vulnerabilities_limit v of None \<Rightarrow> 100 | Some n \<Rightarrow> if n = 0 then 100 else min n 1000) @ '')'')
     (buildVulnerabilitiesQuery v)\<close>
    \<open>sublist
     (''nodes(first: '' @
      show_num (case findings_limit f of None \<Rightarrow> 100 | Some n \<Rightarrow> if n = 0 then 100 else min n 1000) @ '')'')
     (buildFindingsQuery f)\<close>
    \<open>sublist
     (''nodes(first: '' @
      show_num (case tickets_limit t of None \<Rightarrow> 100 | Some n \<Rightarrow> if n = 0 then 100 else min n 1000) @ '')'')
     (buildTicketsQuery t)\<close>
    \<open>sublist
     (''nodes(first: '' @
      show_num (case clusters_limit c of None \<Rightarrow> 50 | Some n \<Rightarrow> if n = 0 then 50 else min n 500) @ '')'')
     (buildClustersQuery c)\<close>
    by ((subst assets_limit_slot |
         subst vulnerabilities_limit_slot |
         subst findings_limit_slot |
         subst tickets_limit_slot |
         subst clusters_limit_slot),
        rule assets_first vulnerabilities_first findings_first tickets_first clusters_first)+
  have alone:
    \<open>(absent ''first:'' (asset_type a) \<and>
    absent ''first:'' (assets_status a) \<and>
    absent ''first:'' (assets_filter a) \<and>
    absent_all ''first:'' (assets_fields a) \<longrightarrow>
      (\<forall>ps ss. buildAssetsQuery a = ps @ ''first:'' @ ss \<longrightarrow>
         prefix ('' '' @ show_num (case assets_limit a of None \<Rightarrow> 100 | Some n \<Rightarrow> if n = 0 then 100 else min n 1000) @ '')'') ss))\<close>
    \<open>(absent ''first:'' (severity v) \<and>
    absent ''first:'' (vulnerabilities_status v) \<and>
    absent ''first:'' (cve_id v) \<and>
    absent ''first:'' (vulnerabilities_filter v) \<longrightarrow>
      (\<forall>ps ss. buildVulnerabilitiesQuery v = ps @ ''first:'' @ ss \<longrightarrow>
         prefix ('' '' @ show_num (case vulnerabilities_limit v of None \<Rightarrow> 100 | Some n \<Rightarrow> if n = 0 then 100 else min n 1000) @ '')'') ss))\<close>
    \<open>(absent ''first:'' (finding_type f) \<and>
    absent ''first:'' (findings_status f) \<longrightarrow>
      (\<forall>ps ss. buildFindingsQuery f = ps @ ''first:'' @ ss \<longrightarrow>
         prefix ('' '' @ show_num (case findings_limit f of None \<Rightarrow> 100 | Some n \<Rightarrow> if n = 0 then 100 else min n 1000) @ '')'') ss))\<close>
    \<open>(absent ''first:'' (tickets_status t) \<and>
    absent ''first:'' (priority t) \<and>
    absent ''first:'' (assignee t) \<and>
    absent ''first:'' (sla_status t) \<longrightarrow>
      (\<forall>ps ss. buildTicketsQuery t = ps @ ''first:'' @ ss \<longrightarrow>
         prefix ('' '' @ show_num (case tickets_limit t of None \<Rightarrow> 100 | Some n \<Rightarrow> if n = 0 then 100 else min n 1000) @ '')'') ss))\<close>
    \<open>(absent ''first:'' (cluster_type c) \<longrightarrow>
      (\<forall>ps ss. buildClustersQuery c = ps @ ''first:'' @ ss \<longrightarrow>
         prefix ('' '' @ show_num (case clusters_limit c of None \<Rightarrow> 50 | Some n \<Rightarrow> if n = 0 then 50 else min n 500) @ '')'') ss))\<close>
    by (intro impI allI; (elim conjE)?;
        rule assets_first_only vulnerabilities_first_only findings_first_only tickets_first_only clusters_first_only; assumption)+
  show ?thesis
    by (intro conjI)
       (rule carried alone assets_limit_slot vulnerabilities_limit_slot findings_limit_slot tickets_limit_slot clusters_limit_slot)+
qed

text \<open>
  A limit of 5000 on tickets, a limit of 7 on clusters and no limit on findings: the
  documents contain \<open>nodes(first: 1000)\<close>, \<open>nodes(first: 7)\<close> and
  \<open>nodes(first: 100)\<close>, and the tickets document contains no \<open>first: 5000)\<close>.
\<close>

theorem limit_is_clamped_witness:
  "buildTicketsQuery (no_tickets_params\<lparr>tickets_limit := Some 5000\<rparr>) = ticketsDocument '''' 1000 \<and>
   sublist ''nodes(first: 1000)'' (buildTicketsQuery (no_tickets_params\<lparr>tickets_limit := Some 5000\<rparr>)) \<and>
   \<not> sublist ''first: 5000)'' (buildTicketsQuery (no_tickets_params\<lparr>tickets_limit := Some 5000\<rparr>)) \<and>
   buildClustersQuery (no_clusters_params\<lparr>clusters_limit := Some 7\<rparr>) = clustersDocument '''' 7 \<and>
   sublist ''nodes(first: 7)'' (buildClustersQuery (no_clusters_params\<lparr>clusters_limit := Some 7\<rparr>)) \<and>
   sublist ''nodes(first: 100)'' (buildFindingsQuery no_findings_params)"
proof -
  let ?t = "no_tickets_params\<lparr>tickets_limit := Some 5000\<rparr>"
  let ?c = "no_clusters_params\<lparr>clusters_limit := Some 7\<rparr>"
  note all = limit_is_clamped
    [of no_assets_params no_vulnerabilities_params no_findings_params ?t ?c]
  note findings_text = all [THEN conjunct2, THEN conjunct2, THEN conjunct2, THEN conjunct2, THEN conjunct2, THEN conjunct2, THEN conjunct2, THEN conjunct1]
  note tickets_hole = all [THEN conjunct2, THEN conjunct2, THEN conjunct2, THEN conjunct2, THEN conjunct2, THEN conjunct2, THEN conjunct2, THEN conjunct2, THEN conjunct2, THEN conjunct1]
  note tickets_text = all [THEN conjunct2, THEN conjunct2, THEN conjunct2, THEN conjunct2, THEN conjunct2, THEN conjunct2, THEN conjunct2, THEN conjunct2, THEN conjunct2, THEN conjunct2, THEN conjunct1]
  note tickets_only = all [THEN conjunct2, THEN conjunct2, THEN conjunct2, THEN conjunct2, THEN conjunct2, THEN conjunct2, THEN conjunct2, THEN conjunct2, THEN conjunct2, THEN conjunct2, THEN conjunct2, THEN conjunct1]
  note clusters_hole = all [THEN conjunct2, THEN conjunct2, THEN conjunct2, THEN conjunct2, THEN conjunct2, THEN conjunct2, THEN conjunct2, THEN conjunct2, THEN conjunct2, THEN conjunct2, THEN conjunct2, THEN conjunct2, THEN conjunct1]
  note clusters_text = all [THEN conjunct2, THEN conjunct2, THEN conjunct2, THEN conjunct2, THEN conjunct2, THEN conjunct2, THEN conjunct2, THEN conjunct2, THEN conjunct2, THEN conjunct2, THEN conjunct2, THEN conjunct2, THEN conjunct2, THEN conjunct1]
  have hole: "buildTicketsQuery ?t = ticketsDocument '''' 1000"
    using tickets_hole
    by (simp add: no_tickets_params_def ticketsFilters_def filterStr_def truthy_str_def)
  have carried: "sublist ''nodes(first: 1000)'' (buildTicketsQuery ?t)"
    using tickets_text by (simp add: no_tickets_params_def show_num_1000)
  have follows: "prefix '' 1000)'' ss" if "buildTicketsQuery ?t = ps @ ''first:'' @ ss" for ps ss
    using tickets_only that by (simp add: no_tickets_params_def absent_def show_num_1000)
  have raw: "\<not> sublist ''first: 5000)'' (buildTicketsQuery ?t)"
  proof
    assume "sublist ''first: 5000)'' (buildTicketsQuery ?t)"
    then obtain ps ss where "buildTicketsQuery ?t = ps @ ''first: 5000)'' @ ss"
      unfolding sublist_def by blast
    then have "buildTicketsQuery ?t = ps @ ''first:'' @ ('' 5000)'' @ ss)"
      by simp
    then have "prefix '' 1000)'' ('' 5000)'' @ ss)"
      by (rule follows)
    then show False
      by simp
  qed
  have "buildClustersQuery ?c = clustersDocument '''' 7"
    using clusters_hole
    by (simp add: no_clusters_params_def clustersFilters_def filterStr_def truthy_str_def)
  moreover have "sublist ''nodes(first: 7)'' (buildClustersQuery ?c)"
    using clusters_text by (simp add: no_clusters_params_def show_num_7)
  moreover have "sublist ''nodes(first: 100)'' (buildFindingsQuery no_findings_params)"
    using findings_text by (simp add: no_findings_params_def show_num_100)
  ultimately show ?thesis
    using hole carried raw by (intro conjI)
qed

text \<open>
  C5 as stated fails for a supplied limit of 0: the smaller of 0 and the ceiling is 0,
  and the clusters document carries the default 50 instead. And a limit above the
  ceiling does appear in the document when a string parameter carries it: with the
  limit 9000 and the cluster type \<open>first: 9000)\<close> the document contains
  \<open>first: 9000)\<close>.
\<close>

theorem limit_zero_counterexample:
  "buildClustersQuery (no_clusters_params\<lparr>clusters_limit := Some 0\<rparr>) = clustersDocument '''' 50 \<and>
   buildClustersQuery (no_clusters_params\<lparr>clusters_limit := Some 0\<rparr>)
     \<noteq> clustersDocument '''' (min 0 500) \<and>
   sublist ''nodes(first: 50)'' (buildClustersQuery (no_clusters_params\<lparr>clusters_limit := Some 0\<rparr>)) \<and>
   \<not> sublist ''nodes(first: 0)'' (buildClustersQuery (no_clusters_params\<lparr>clusters_limit := Some 0\<rparr>)) \<and>
   sublist ''first: 9000)''
     (buildClustersQuery \<lparr>cluster_type = Some ''first: 9000)'', clusters_limit = Some 9000\<rparr>)"
  by code_simp

section \<open>Filter clauses\<close>




lemma assets_clauses:
  "has_clause ''assetType: '' (assetsFilters a) \<longleftrightarrow> truthy_str (asset_type a)"
  "has_clause ''status: '' (assetsFilters a) \<longleftrightarrow> truthy_str (assets_status a)"
  "has_clause ''filter: '' (assetsFilters a) \<longleftrightarrow> truthy_str (assets_filter a)"
  by (simp_all add: has_clause_def assetsFilters_def)

lemma vulnerabilities_clauses:
  "has_clause ''severity: '' (vulnerabilitiesFilters v) \<longleftrightarrow> truthy_str (severity v)"
  "has_clause ''status: '' (vulnerabilitiesFilters v) \<longleftrightarrow> truthy_str (vulnerabilities_status v)"
  "has_clause ''cveId: '' (vulnerabilitiesFilters v) \<longleftrightarrow> truthy_str (cve_id v)"
  "has_clause ''filter: '' (vulnerabilitiesFilters v) \<longleftrightarrow> truthy_str (vulnerabilities_filter v)"
  by (simp_all add: has_clause_def vulnerabilitiesFilters_def)

lemma findings_clauses:
  "has_clause ''findingType: '' (findingsFilters f) \<longleftrightarrow> truthy_str (finding_type f)"
  "has_clause ''status: '' (findingsFilters f) \<longleftrightarrow> truthy_str (findings_status f)"
  "has_clause ''riskScoreMin: '' (findingsFilters f) \<longleftrightarrow> risk_score_min f \<noteq> None"
  "has_clause ''riskScoreMax: '' (findingsFilters f) \<longleftrightarrow> risk_score_max f \<noteq> None"
  "has_clause ''discoveredAfter: '' (findingsFilters f) \<longleftrightarrow> truthy_num (age_days f)"
  by (simp_all add: has_clause_def findingsFilters_def)

lemma tickets_clauses:
  "has_clause ''status: '' (ticketsFilters t) \<longleftrightarrow> truthy_str (tickets_status t)"
  "has_clause ''priority: '' (ticketsFilters t) \<longleftrightarrow> truthy_str (priority t)"
  "has_clause ''assignee: '' (ticketsFilters t) \<longleftrightarrow> truthy_str (assignee t)"
  "has_clause ''slaStatus: '' (ticketsFilters t) \<longleftrightarrow> truthy_str (sla_status t)"
  by (simp_all add: has_clause_def ticketsFilters_def)

lemma connectors_clauses:
  "has_clause ''connectorType: '' (connectorsFilters c) \<longleftrightarrow> truthy_str (connector_type c)"
  "has_clause ''status: '' (connectorsFilters c) \<longleftrightarrow> truthy_str (connectors_status c)"
  by (simp_all add: has_clause_def connectorsFilters_def)

lemma clusters_clauses:
  "has_clause ''clusterType: '' (clustersFilters k) \<longleftrightarrow> truthy_str (cluster_type k)"
  by (simp_all add: has_clause_def clustersFilters_def)

subsection \<open>The clauses of \<open>buildAssetsQuery\<close>\<close>







subsection \<open>The clauses of \<open>buildVulnerabilitiesQuery\<close>\<close>









subsection \<open>The clauses of \<open>buildFindingsQuery\<close>\<close>











subsection \<open>The clauses of \<open>buildTicketsQuery\<close>\<close>









subsection \<open>The clauses of \<open>buildConnectorsQuery\<close>\<close>





subsection \<open>The clauses of \<open>buildClustersQuery\<close>\<close>







end
